theory Spec2Isabelle
  imports Complex_Main
begin

section \<open>Python and numpy values\<close>

text \<open>
  The module \<open>sim_data.py\<close> works on numbers, numpy arrays and dictionaries of them.
  Floating-point numbers are modelled by reals, so every statement below is about exact
  arithmetic. The constructors keep apart the Python types the code distinguishes with
  \<open>isinstance\<close>, \<open>ndim\<close> and the presence of the attributes \<open>copy\<close> and \<open>ndim\<close>:
  \<^item> \<open>PyInt\<close>, \<open>PyFloat\<close>: a Python \<open>int\<close> and a Python \<open>float\<close> (no \<open>copy\<close>, no \<open>ndim\<close>);
  \<^item> \<open>NpFloat\<close>: a \<open>numpy.float64\<close> (a subclass of \<open>float\<close>, with \<open>copy\<close> and \<open>ndim = 0\<close>);
  \<^item> \<open>NpInt\<close>: a \<open>numpy.int64\<close> (not an \<open>int\<close> in Python 3, with \<open>copy\<close> and \<open>ndim = 0\<close>);
  \<^item> \<open>Arr1 xs\<close>: a float array of shape \<open>(length xs,)\<close>;
  \<^item> \<open>Arr2 c rows\<close>: a float array of shape \<open>(length rows, c)\<close>, every row of length \<open>c\<close>;
  \<^item> \<open>ArrN shape xs\<close>: a float array whose number of dimensions is neither 1 nor 2
    (its shape and its flattened entries);
  \<^item> \<open>PyList\<close>, \<open>PyStr\<close>: a Python list and a string (a list has \<open>copy\<close>, a string has not;
    neither has \<open>ndim\<close>);
  \<^item> \<open>PyDict\<close>: a dictionary, in insertion order.

  The errors are the Python exceptions the module can raise. \<open>NotModelled\<close> is not an
  exception: it marks a numpy operation outside the fragment of numpy modelled below.
\<close>

datatype error =
    AttributeError
  | IndexError
  | KeyError
  | TypeError
  | ValueError string
  | NotModelled

datatype pykey = KInt int | KStr string

datatype pyval =
    PyInt int
  | PyFloat real
  | NpFloat real
  | NpInt int
  | Arr1 "real list"
  | Arr2 nat "real list list"
  | ArrN "nat list" "real list"
  | PyList "real list"
  | PyStr string
  | PyDict "(pykey \<times> pyval) list"

section \<open>Rendering numbers: \<open>str\<close>\<close>

definition digit_char :: "nat \<Rightarrow> char" where
  "digit_char d = ''0123456789'' ! d"

fun str_nat :: "nat \<Rightarrow> string" where
  "str_nat n = (if n < 10 then [digit_char n] else str_nat (n div 10) @ [digit_char (n mod 10)])"

declare str_nat.simps [simp del]

definition str_int :: "int \<Rightarrow> string" where
  "str_int i = (if i < 0 then CHR ''-'' # str_nat (nat (- i)) else str_nat (nat i))"

fun str_key :: "pykey \<Rightarrow> string" where
  "str_key (KInt i) = str_int i"
| "str_key (KStr s) = s"

section \<open>Unit conversion\<close>

definition D2R :: real where
  "D2R = pi / 180"

text \<open>The \<open>if\<close>/\<open>elif\<close> chain in the loop of \<open>unit_conversion_scale\<close>; the final
  \<open>else: pass\<close> leaves the entry at the 0 that \<open>np.zeros\<close> put there.\<close>

definition scale_entry :: "string \<Rightarrow> string \<Rightarrow> real \<Rightarrow> real" where
  "scale_entry s d old =
     (if s = ''deg'' \<and> d = ''rad'' then D2R
      else if s = ''deg/s'' \<and> d = ''rad/s'' then D2R
      else if s = ''rad'' \<and> d = ''deg'' then 1 / D2R
      else if s = ''rad/s'' \<and> d = ''deg/s'' then 1 / D2R
      else old)"

text \<open>\<open>for i in range(m)\<close>: reading \<open>src_unit[i]\<close> past the end of the list raises
  \<open>IndexError\<close>.\<close>

fun scale_loop :: "string list \<Rightarrow> string list \<Rightarrow> nat list \<Rightarrow> real list \<Rightarrow> error + real list" where
  "scale_loop src dst [] scale = Inr scale"
| "scale_loop src dst (i # rest) scale =
     (if length src \<le> i then Inl IndexError
      else scale_loop src dst rest (scale[i := scale_entry (src ! i) (dst ! i) (scale ! i)]))"

definition unit_conversion_scale :: "string list \<Rightarrow> string list \<Rightarrow> error + real list" where
  "unit_conversion_scale src_unit dst_unit =
     (let m = length dst_unit in scale_loop src_unit dst_unit [0..<m] (replicate m 0))"

text \<open>\<open>x[:, i] = x[:, i] * scale[i]\<close> on the rows of a two-dimensional array.\<close>

definition scale_column :: "real list list \<Rightarrow> nat \<Rightarrow> real \<Rightarrow> real list list" where
  "scale_column rows i s = map (\<lambda>r. r[i := r ! i * s]) rows"

fun column_loop :: "real list \<Rightarrow> nat list \<Rightarrow> real list list \<Rightarrow> real list list" where
  "column_loop scale [] rows = rows"
| "column_loop scale (i # rest) rows =
     column_loop scale rest (if scale ! i \<noteq> 0 then scale_column rows i (scale ! i) else rows)"

definition ndim_message :: "nat \<Rightarrow> string" where
  "ndim_message n = ''Input x should be a scalar, 1D or 2D array, ndim = '' @ str_nat n"

text \<open>
  \<open>convert_unit_ndarray_scalar(x, scale)\<close>, as a function of the value of \<open>x\<close>. An array with
  \<open>ndim\<close> other than 1 and 2 matches neither \<open>if x.ndim == 2\<close> nor \<open>elif x.ndim == 1\<close> and
  is returned as it is. \<open>scale[0]\<close> raises \<open>IndexError\<close> on an empty scale. In the last
  branch the message is built from \<open>x.ndim\<close> before the \<open>ValueError\<close> is raised, so a
  value without that attribute raises \<open>AttributeError\<close> instead.
\<close>

definition convert_unit_ndarray_scalar :: "pyval \<Rightarrow> real list \<Rightarrow> error + pyval" where
  "convert_unit_ndarray_scalar x scale =
     (let m = length scale in
      case x of
        Arr2 c rows \<Rightarrow> Inr (Arr2 c (column_loop scale [0..<min m c] rows))
      | Arr1 xs \<Rightarrow>
          (if m = 0 then Inl IndexError
           else if scale ! 0 \<noteq> 0 then Inr (Arr1 (map (\<lambda>v. v * scale ! 0) xs))
           else Inr (Arr1 xs))
      | ArrN shape xs \<Rightarrow> Inr (ArrN shape xs)
      | PyInt v \<Rightarrow> (if m = 0 then Inl IndexError else Inr (NpFloat (of_int v * scale ! 0)))
      | PyFloat v \<Rightarrow> (if m = 0 then Inl IndexError else Inr (NpFloat (v * scale ! 0)))
      | NpFloat v \<Rightarrow> (if m = 0 then Inl IndexError else Inr (NpFloat (v * scale ! 0)))
      | NpInt v \<Rightarrow> Inl (ValueError (ndim_message 0))
      | PyList xs \<Rightarrow> Inl AttributeError
      | PyStr s \<Rightarrow> Inl AttributeError
      | PyDict es \<Rightarrow> Inl AttributeError)"

text \<open>\<open>data.copy()\<close>: Python numbers and strings have no such method.\<close>

definition copy_value :: "pyval \<Rightarrow> error + pyval" where
  "copy_value x =
     (case x of
        PyInt v \<Rightarrow> Inl AttributeError
      | PyFloat v \<Rightarrow> Inl AttributeError
      | PyStr s \<Rightarrow> Inl AttributeError
      | _ \<Rightarrow> Inr x)"

text \<open>\<open>for i in x: x[i] = convert_unit_ndarray_scalar(x[i], scale)\<close>, for a dictionary
  whose entries are distinct objects; the section on objects with identity follows the
  loop on the store, where two keys can hold the same array.\<close>

fun convert_entries :: "(pykey \<times> pyval) list \<Rightarrow> real list \<Rightarrow> error + (pykey \<times> pyval) list" where
  "convert_entries [] scale = Inr []"
| "convert_entries ((k, v) # es) scale =
     (case convert_unit_ndarray_scalar v scale of
        Inl e \<Rightarrow> Inl e
      | Inr v' \<Rightarrow>
          (case convert_entries es scale of
             Inl e \<Rightarrow> Inl e
           | Inr es' \<Rightarrow> Inr ((k, v') # es')))"

definition convert_unit :: "pyval \<Rightarrow> string list \<Rightarrow> string list \<Rightarrow> error + pyval" where
  "convert_unit data_in src_unit dst_unit =
     (case unit_conversion_scale src_unit dst_unit of
        Inl e \<Rightarrow> Inl e
      | Inr scale \<Rightarrow>
          (case copy_value data_in of
             Inl e \<Rightarrow> Inl e
           | Inr x \<Rightarrow>
               (case x of
                  PyDict es \<Rightarrow>
                    (case convert_entries es scale of
                       Inl e \<Rightarrow> Inl e
                     | Inr es' \<Rightarrow> Inr (PyDict es'))
                | _ \<Rightarrow> convert_unit_ndarray_scalar x scale)))"

section \<open>The data container\<close>

record sim_data =
  name :: string
  description :: string
  units :: "string list"
  output_units :: "string list"
  plottable :: bool
  logx :: bool
  logy :: bool
  grid :: string
  legend :: "string list option"
  data :: pyval

definition lower_char :: "char \<Rightarrow> char" where
  "lower_char c = (let n = (of_char c :: nat) in if 65 \<le> n \<and> n \<le> 90 then char_of (n + 32) else c)"

definition lower :: "string \<Rightarrow> string" where
  "lower s = map lower_char s"

text \<open>\<open>for i in range(a, b): dst.append(src[i])\<close>\<close>

fun append_loop :: "string list \<Rightarrow> nat list \<Rightarrow> string list \<Rightarrow> string list" where
  "append_loop src [] dst = dst"
| "append_loop src (i # rest) dst = append_loop src rest (dst @ [src ! i])"

text \<open>\<open>Sim_data.__init__\<close>. The arguments \<open>units\<close> and \<open>output_units\<close> are \<open>None\<close> or a
  sequence of strings; the payload starts as the empty dictionary.\<close>

definition init_units :: "string list option \<Rightarrow> string list option \<Rightarrow> string list \<times> string list" where
  "init_units units_arg output_units_arg =
     (let us = (case units_arg of None \<Rightarrow> [] | Some u \<Rightarrow> u) in
      case output_units_arg of
        None \<Rightarrow> (us, us)
      | Some os \<Rightarrow>
          (let len_in = length us; len_out = length os in
           if len_in > len_out then (us, append_loop us [len_out..<len_in] os)
           else if len_in < len_out then (append_loop os [len_in..<len_out] us, os)
           else (us, os)))"

definition Sim_data_init ::
  "string \<Rightarrow> string \<Rightarrow> string list option \<Rightarrow> string list option \<Rightarrow> bool \<Rightarrow> bool \<Rightarrow> bool \<Rightarrow>
   string \<Rightarrow> string list option \<Rightarrow> sim_data" where
  "Sim_data_init nm descr units_arg output_units_arg plottable_arg logx_arg logy_arg grid_arg legend_arg =
     (let (us, os) = init_units units_arg output_units_arg in
      \<lparr> name = nm, description = descr, units = us, output_units = os,
        plottable = plottable_arg, logx = logx_arg, logy = logy_arg,
        grid = (if lower grid_arg = ''off'' then grid_arg else ''on''),
        legend = legend_arg, data = PyDict [] \<rparr>)"

subsection \<open>Writing: \<open>add_data\<close>\<close>

text \<open>\<open>self.data[key] = data\<close> on a dictionary in insertion order: an existing key
  keeps its place, a new key is added at the end.\<close>

fun dict_set :: "(pykey \<times> pyval) list \<Rightarrow> pykey \<Rightarrow> pyval \<Rightarrow> (pykey \<times> pyval) list" where
  "dict_set [] k v = [(k, v)]"
| "dict_set ((k', v') # es) k v = (if k' = k then (k', v) # es else (k', v') # dict_set es k v)"

text \<open>\<open>d[key]\<close>: \<open>KeyError\<close> when the key is absent.\<close>

fun dict_get :: "(pykey \<times> pyval) list \<Rightarrow> pykey \<Rightarrow> error + pyval" where
  "dict_get [] k = Inl KeyError"
| "dict_get ((k', v') # es) k = (if k' = k then Inr v' else dict_get es k)"

definition units_length_error :: error where
  "units_length_error = ValueError ''Units are of different lengths.''"

text \<open>The first half of \<open>add_data\<close>: the value that will be stored, or the error raised
  before anything is stored.\<close>

definition add_data_units :: "sim_data \<Rightarrow> pyval \<Rightarrow> string list option \<Rightarrow> error + pyval" where
  "add_data_units self d units_arg =
     (case units_arg of
        None \<Rightarrow> Inr d
      | Some us \<Rightarrow>
          (if length us = length (units self) then
             (if us \<noteq> units self then convert_unit d us (units self) else Inr d)
           else Inl units_length_error))"

text \<open>The second half: \<open>self.data = data\<close>, or \<open>self.data[key] = data\<close> after the payload
  has been replaced by \<open>{}\<close> when it was not a dictionary.\<close>

definition store_data :: "sim_data \<Rightarrow> pykey option \<Rightarrow> pyval \<Rightarrow> sim_data" where
  "store_data self key v =
     (case key of
        None \<Rightarrow> self\<lparr>data := v\<rparr>
      | Some k \<Rightarrow>
          (let cur = (case data self of PyDict es \<Rightarrow> es | _ \<Rightarrow> [])
           in self\<lparr>data := PyDict (dict_set cur k v)\<rparr>))"

text \<open>\<open>add_data\<close> returns the dataset after the call and the exception raised, if any:
  every \<open>raise\<close> comes before the first assignment to \<open>self.data\<close>.\<close>

definition add_data ::
  "sim_data \<Rightarrow> pyval \<Rightarrow> pykey option \<Rightarrow> string list option \<Rightarrow> sim_data \<times> error option" where
  "add_data self d key units_arg =
     (case add_data_units self d units_arg of
        Inl e \<Rightarrow> (self, Some e)
      | Inr v \<Rightarrow> (store_data self key v, None))"

subsection \<open>Export: \<open>save_to_file\<close>\<close>

text \<open>The attributes \<open>ndim\<close> and \<open>shape[1]\<close> of a value.\<close>

definition ndim :: "pyval \<Rightarrow> error + nat" where
  "ndim v =
     (case v of
        NpFloat x \<Rightarrow> Inr 0
      | NpInt x \<Rightarrow> Inr 0
      | Arr1 xs \<Rightarrow> Inr 1
      | Arr2 c rows \<Rightarrow> Inr 2
      | ArrN shape xs \<Rightarrow> Inr (length shape)
      | _ \<Rightarrow> Inl AttributeError)"

definition shape1 :: "pyval \<Rightarrow> nat" where
  "shape1 v = (case v of Arr2 c rows \<Rightarrow> c | ArrN shape xs \<Rightarrow> shape ! 1 | _ \<Rightarrow> 0)"

definition is_ndarray :: "pyval \<Rightarrow> bool" where
  "is_ndarray v = (case v of Arr1 xs \<Rightarrow> True | Arr2 c rows \<Rightarrow> True | ArrN shape xs \<Rightarrow> True | _ \<Rightarrow> False)"

text \<open>\<open>cols = v.shape[1]\<close> if \<open>v.ndim > 1\<close>, else 0.\<close>

definition cols_of :: "pyval \<Rightarrow> error + nat" where
  "cols_of v =
     (case ndim v of
        Inl e \<Rightarrow> Inl e
      | Inr n \<Rightarrow> Inr (if n > 1 then shape1 v else 0))"

text \<open>The number of columns: read from the first entry of a dictionary (the loop stops at
  its \<open>break\<close>), from an array itself, 0 for anything else.\<close>

definition header_cols :: "pyval \<Rightarrow> error + nat" where
  "header_cols d =
     (case d of
        PyDict es \<Rightarrow> (case es of [] \<Rightarrow> Inr 0 | (k, v) # rest \<Rightarrow> cols_of v)
      | _ \<Rightarrow> (if is_ndarray d then cols_of d else Inr 0))"

definition str_unit_at :: "sim_data \<Rightarrow> nat \<Rightarrow> string" where
  "str_unit_at self i =
     (if i < length (output_units self) then '' ('' @ output_units self ! i @ '')'' else [])"

definition has_legend :: "sim_data \<Rightarrow> nat \<Rightarrow> bool" where
  "has_legend self cols = (case legend self of None \<Rightarrow> False | Some lg \<Rightarrow> cols = length lg)"

fun header_loop :: "sim_data \<Rightarrow> nat \<Rightarrow> nat list \<Rightarrow> string \<Rightarrow> string" where
  "header_loop self cols [] header_line = header_line"
| "header_loop self cols (i # rest) header_line =
     header_loop self cols rest
       (if has_legend self cols
        then header_line @ the (legend self) ! i @ str_unit_at self i @ '',''
        else header_line @ name self @ ''_'' @ str_nat i @ str_unit_at self i @ '','')"

definition make_header :: "sim_data \<Rightarrow> nat \<Rightarrow> string" where
  "make_header self cols =
     (if cols > 0 then butlast (header_loop self cols [0..<cols] [])
      else name self @ (if length (output_units self) > 0 then '' ('' @ output_units self ! 0 @ '')'' else []))"

text \<open>One call of the serializer \<open>np.savetxt(file_name, X, header=header_line, ...)\<close>.
  The serializer itself is outside the module: the model records what it is given.\<close>

record savetxt_call =
  file_name :: string
  table :: pyval
  header :: string

definition keyed_file_name :: "sim_data \<Rightarrow> string \<Rightarrow> pykey \<Rightarrow> string" where
  "keyed_file_name self data_dir k = data_dir @ ''//'' @ name self @ ''-'' @ str_key k @ ''.csv''"

definition bare_file_name :: "sim_data \<Rightarrow> string \<Rightarrow> string" where
  "bare_file_name self data_dir = data_dir @ ''//'' @ name self @ ''.csv''"

text \<open>\<open>for i in self.data: np.savetxt(...)\<close>: the files written before an exception stay
  written.\<close>

fun save_loop ::
  "sim_data \<Rightarrow> string \<Rightarrow> string \<Rightarrow> (pykey \<times> pyval) list \<Rightarrow> savetxt_call list \<times> error option" where
  "save_loop self data_dir h [] = ([], None)"
| "save_loop self data_dir h ((k, v) # es) =
     (case convert_unit v (units self) (output_units self) of
        Inl e \<Rightarrow> ([], Some e)
      | Inr t \<Rightarrow>
          (let (calls, r) = save_loop self data_dir h es
           in (\<lparr>file_name = keyed_file_name self data_dir k, table = t, header = h\<rparr> # calls, r)))"

definition save_to_file :: "sim_data \<Rightarrow> string \<Rightarrow> savetxt_call list \<times> error option" where
  "save_to_file self data_dir =
     (case header_cols (data self) of
        Inl e \<Rightarrow> ([], Some e)
      | Inr cols \<Rightarrow>
          (let h = make_header self cols in
           case data self of
             PyDict es \<Rightarrow> save_loop self data_dir h es
           | _ \<Rightarrow>
               (case convert_unit (data self) (units self) (output_units self) of
                  Inl e \<Rightarrow> ([], Some e)
                | Inr t \<Rightarrow> ([\<lparr>file_name = bare_file_name self data_dir, table = t, header = h\<rparr>], None))))"

definition is_dict :: "pyval \<Rightarrow> bool" where
  "is_dict v = (case v of PyDict es \<Rightarrow> True | _ \<Rightarrow> False)"

subsection \<open>Example datasets\<close>

text \<open>A dataset named \<open>gyro\<close> stored in degrees per second and exported in radians per
  second, as the constructor builds it.\<close>

definition gyro :: sim_data where
  "gyro = Sim_data_init ''gyro'' ''angular rate''
            (Some [''deg/s'', ''deg/s'', ''deg/s'']) (Some [''rad/s'', ''rad/s'', ''rad/s''])
            True False False ''on'' None"

definition ones_2x3 :: pyval where
  "ones_2x3 = Arr2 3 [[1, 1, 1], [1, 1, 1]]"

text \<open>A dataset with one keyed entry, written under the key 0.\<close>

definition example_keyed :: sim_data where
  "example_keyed =
     fst (add_data (Sim_data_init ''gyro'' ''rate'' (Some [''deg/s'']) None True False False ''on'' None)
            (Arr1 [1]) (Some (KInt 0)) None)"

subsection \<open>Arithmetic on the payload: \<open>-\<close>, \<open>%\<close> and the masked assignment\<close>

text \<open>
  The plot methods subtract the reference from the data with numpy's \<open>-\<close>. The model covers
  float arithmetic on Python numbers, \<open>numpy.float64\<close> scalars, Python lists of floats and
  arrays of one and two dimensions, with numpy's broadcasting. Operands are first sorted
  into the kinds that arithmetic distinguishes. Integer numpy scalars and arrays of other
  dimensions are outside the modelled fragment (\<open>Outside\<close>); a string or a dictionary
  makes every operation raise (\<open>Bad\<close>).
\<close>

datatype operand =
    OInt int
  | OFloat real
  | ONp real
  | OList "real list"
  | OVec "real list"
  | OMat nat "real list list"
  | Bad
  | Outside

definition operand_of :: "pyval \<Rightarrow> operand" where
  "operand_of v =
     (case v of
        PyInt i \<Rightarrow> OInt i
      | PyFloat x \<Rightarrow> OFloat x
      | NpFloat x \<Rightarrow> ONp x
      | NpInt i \<Rightarrow> Outside
      | Arr1 xs \<Rightarrow> OVec xs
      | Arr2 c rows \<Rightarrow> OMat c rows
      | ArrN shape xs \<Rightarrow> Outside
      | PyList xs \<Rightarrow> OList xs
      | PyStr s \<Rightarrow> Bad
      | PyDict es \<Rightarrow> Bad)"

text \<open>The length of a broadcast dimension: equal lengths, or one of them 1.\<close>

definition broadcast_len :: "nat \<Rightarrow> nat \<Rightarrow> nat option" where
  "broadcast_len a b = (if a = b then Some a else if b = 1 then Some a else if a = 1 then Some b else None)"

definition broadcast :: "('a \<Rightarrow> 'a \<Rightarrow> 'a) \<Rightarrow> 'a list \<Rightarrow> 'a list \<Rightarrow> 'a list" where
  "broadcast f xs ys =
     (if length xs = length ys then map2 f xs ys
      else if length ys = 1 then map (\<lambda>a. f a (hd ys)) xs
      else map (\<lambda>b. f (hd xs) b) ys)"

definition sub_vec :: "real list \<Rightarrow> real list \<Rightarrow> error + pyval" where
  "sub_vec xs ys =
     (case broadcast_len (length xs) (length ys) of
        None \<Rightarrow> Inl (ValueError ''operands could not be broadcast together'')
      | Some n \<Rightarrow> Inr (Arr1 (broadcast (-) xs ys)))"

definition sub_mat :: "nat \<Rightarrow> real list list \<Rightarrow> nat \<Rightarrow> real list list \<Rightarrow> error + pyval" where
  "sub_mat c rows c' rows' =
     (case (broadcast_len (length rows) (length rows'), broadcast_len c c') of
        (Some n, Some m) \<Rightarrow> Inr (Arr2 m (broadcast (broadcast (-)) rows rows'))
      | _ \<Rightarrow> Inl (ValueError ''operands could not be broadcast together''))"

text \<open>\<open>a - b\<close>. A Python list takes part only when the other operand belongs to numpy,
  which then reads the list as an array.\<close>

fun sub_operands :: "operand \<Rightarrow> operand \<Rightarrow> error + pyval" where
  "sub_operands Bad b = Inl TypeError"
| "sub_operands a Bad = Inl TypeError"
| "sub_operands Outside b = Inl NotModelled"
| "sub_operands a Outside = Inl NotModelled"
| "sub_operands (OInt x) (OInt y) = Inr (PyInt (x - y))"
| "sub_operands (OInt x) (OFloat y) = Inr (PyFloat (of_int x - y))"
| "sub_operands (OFloat x) (OInt y) = Inr (PyFloat (x - of_int y))"
| "sub_operands (OFloat x) (OFloat y) = Inr (PyFloat (x - y))"
| "sub_operands (ONp x) (OInt y) = Inr (NpFloat (x - of_int y))"
| "sub_operands (ONp x) (OFloat y) = Inr (NpFloat (x - y))"
| "sub_operands (ONp x) (ONp y) = Inr (NpFloat (x - y))"
| "sub_operands (OInt x) (ONp y) = Inr (NpFloat (of_int x - y))"
| "sub_operands (OFloat x) (ONp y) = Inr (NpFloat (x - y))"
| "sub_operands (OList xs) (OInt y) = Inl TypeError"
| "sub_operands (OList xs) (OFloat y) = Inl TypeError"
| "sub_operands (OList xs) (OList ys) = Inl TypeError"
| "sub_operands (OInt x) (OList ys) = Inl TypeError"
| "sub_operands (OFloat x) (OList ys) = Inl TypeError"
| "sub_operands (OList xs) (ONp y) = Inr (Arr1 (map (\<lambda>a. a - y) xs))"
| "sub_operands (ONp x) (OList ys) = Inr (Arr1 (map (\<lambda>b. x - b) ys))"
| "sub_operands (OList xs) (OVec ys) = sub_vec xs ys"
| "sub_operands (OVec xs) (OList ys) = sub_vec xs ys"
| "sub_operands (OList xs) (OMat c rows) = sub_mat (length xs) [xs] c rows"
| "sub_operands (OMat c rows) (OList ys) = sub_mat c rows (length ys) [ys]"
| "sub_operands (OVec xs) (OInt y) = Inr (Arr1 (map (\<lambda>a. a - of_int y) xs))"
| "sub_operands (OVec xs) (OFloat y) = Inr (Arr1 (map (\<lambda>a. a - y) xs))"
| "sub_operands (OVec xs) (ONp y) = Inr (Arr1 (map (\<lambda>a. a - y) xs))"
| "sub_operands (OInt x) (OVec ys) = Inr (Arr1 (map (\<lambda>b. of_int x - b) ys))"
| "sub_operands (OFloat x) (OVec ys) = Inr (Arr1 (map (\<lambda>b. x - b) ys))"
| "sub_operands (ONp x) (OVec ys) = Inr (Arr1 (map (\<lambda>b. x - b) ys))"
| "sub_operands (OVec xs) (OVec ys) = sub_vec xs ys"
| "sub_operands (OVec xs) (OMat c rows) = sub_mat (length xs) [xs] c rows"
| "sub_operands (OMat c rows) (OVec ys) = sub_mat c rows (length ys) [ys]"
| "sub_operands (OMat c rows) (OInt y) = Inr (Arr2 c (map (map (\<lambda>a. a - of_int y)) rows))"
| "sub_operands (OMat c rows) (OFloat y) = Inr (Arr2 c (map (map (\<lambda>a. a - y)) rows))"
| "sub_operands (OMat c rows) (ONp y) = Inr (Arr2 c (map (map (\<lambda>a. a - y)) rows))"
| "sub_operands (OInt x) (OMat c rows) = Inr (Arr2 c (map (map (\<lambda>b. of_int x - b)) rows))"
| "sub_operands (OFloat x) (OMat c rows) = Inr (Arr2 c (map (map (\<lambda>b. x - b)) rows))"
| "sub_operands (ONp x) (OMat c rows) = Inr (Arr2 c (map (map (\<lambda>b. x - b)) rows))"
| "sub_operands (OMat c rows) (OMat c' rows') = sub_mat c rows c' rows'"

definition np_sub :: "pyval \<Rightarrow> pyval \<Rightarrow> error + pyval" where
  "np_sub a b = sub_operands (operand_of a) (operand_of b)"

text \<open>Modelled from the spec: the constant \<open>attitude.TWO_PI\<close>, whose module \<open>attitude\<close> is
  not among the sources; the spec names the modulus \<open>2 * pi\<close>.\<close>

definition TWO_PI :: real where
  "TWO_PI = 2 * pi"

text \<open>\<open>%\<close> on floats, in Python and in numpy: the remainder of the floored division.\<close>

definition py_mod :: "real \<Rightarrow> real \<Rightarrow> real" where
  "py_mod v m = v - m * of_int \<lfloor>v / m\<rfloor>"

text \<open>One element through \<open>y = y % TWO_PI; idx = y > math.pi; y[idx] = y[idx] - TWO_PI\<close>.\<close>

definition wrap_angle :: "real \<Rightarrow> real" where
  "wrap_angle v = (let r = py_mod v TWO_PI in if r > pi then r - TWO_PI else r)"

text \<open>The three statements on a whole value. They end in an item assignment, which only
  an array supports: a Python float is not subscriptable and a numpy scalar does not
  support item assignment (\<open>TypeError\<close>), whatever \<open>idx\<close> is.\<close>

definition wrap_series :: "pyval \<Rightarrow> error + pyval" where
  "wrap_series y =
     (case y of
        Arr1 xs \<Rightarrow> Inr (Arr1 (map wrap_angle xs))
      | Arr2 c rows \<Rightarrow> Inr (Arr2 c (map (map wrap_angle) rows))
      | _ \<Rightarrow> Inl TypeError)"

text \<open>The body of the \<open>try\<close> in \<open>__plot_dict\<close> and \<open>__plot_array\<close>.\<close>

definition subtract_ref :: "sim_data \<Rightarrow> pyval \<Rightarrow> pyval \<Rightarrow> error + pyval" where
  "subtract_ref self y_data ref_data =
     (case np_sub y_data ref_data of
        Inl e \<Rightarrow> Inl e
      | Inr d \<Rightarrow> (if units self = [''rad'', ''rad'', ''rad''] then wrap_series d else Inr d))"

subsection \<open>The drawing functions\<close>

text \<open>
  The drawing surface (matplotlib) is outside the module and is taken to accept every
  series it is given. The model keeps what the module itself decides: the checks on the
  dimensions of \<open>y\<close>, the exceptions of the \<open>except\<close> blocks, and one record per figure
  that was drawn (a 3-D figure has no x series). Axis labels, legend, grid, log scaling and \<open>extra_opt\<close> are handed on to
  the drawing surface and are not recorded.
\<close>

datatype figure_kind = Lines2D | Trajectory3D | Projections3D

record draw_call =
  kind :: figure_kind
  title :: string
  x_series :: "pyval option"
  y_series :: pyval

text \<open>The attribute \<open>shape\<close>, which arrays and numpy scalars have.\<close>

definition shape :: "pyval \<Rightarrow> error + nat list" where
  "shape v =
     (case v of
        NpFloat x \<Rightarrow> Inr []
      | NpInt x \<Rightarrow> Inr []
      | Arr1 xs \<Rightarrow> Inr [length xs]
      | Arr2 c rows \<Rightarrow> Inr [length rows, c]
      | ArrN sh xs \<Rightarrow> Inr sh
      | _ \<Rightarrow> Inl AttributeError)"

definition has_shape :: "pyval \<Rightarrow> bool" where
  "has_shape v = (case shape v of Inl e \<Rightarrow> False | Inr sh \<Rightarrow> True)"

definition check_y_error :: error where
  "check_y_error = ValueError ''Check input data y.''"

text \<open>\<open>x = np.array(range(y.shape[0]))\<close>, raised outside the \<open>try\<close> when it fails.\<close>

definition default_x :: "pyval \<Rightarrow> error + pyval" where
  "default_x y =
     (case shape y of
        Inl e \<Rightarrow> Inl e
      | Inr sh \<Rightarrow> (case sh of [] \<Rightarrow> Inl IndexError | n # rest \<Rightarrow> Inr (Arr1 (map real [0..<n]))))"

text \<open>\<open>plot_in_one_figure\<close>: \<open>x\<close> is \<open>None\<close> or a value. The \<open>except\<close> block prints \<open>x.shape\<close>
  and \<open>y.shape\<close> before it raises.\<close>

definition plot_in_one_figure :: "pyval option \<Rightarrow> pyval \<Rightarrow> string \<Rightarrow> error + draw_call" where
  "plot_in_one_figure x y ttl =
     (case (case x of None \<Rightarrow> default_x y | Some xv \<Rightarrow> Inr xv) of
        Inl e \<Rightarrow> Inl e
      | Inr xv \<Rightarrow>
          (if ndim y = Inr 1 \<or> ndim y = Inr 2
           then Inr \<lparr>kind = Lines2D, title = ttl, x_series = Some xv, y_series = y\<rparr>
           else if has_shape xv \<and> has_shape y then Inl check_y_error
           else Inl AttributeError))"

text \<open>\<open>plot3d_in_one_figure\<close> and \<open>plot3d_proj_in_one_figure\<close> make the same check: \<open>y\<close> has
  two dimensions and three columns. Their \<open>except\<close> block prints \<open>y.shape\<close>.\<close>

definition plot3d_check :: "figure_kind \<Rightarrow> pyval \<Rightarrow> string \<Rightarrow> error + draw_call" where
  "plot3d_check k y ttl =
     (if ndim y = Inr 2 \<and> shape1 y = 3
      then Inr \<lparr>kind = k, title = ttl, x_series = None, y_series = y\<rparr>
      else if has_shape y then Inl check_y_error
      else Inl AttributeError)"

definition plot3d_in_one_figure :: "pyval \<Rightarrow> string \<Rightarrow> error + draw_call" where
  "plot3d_in_one_figure y ttl = plot3d_check Trajectory3D y ttl"

definition plot3d_proj_in_one_figure :: "pyval \<Rightarrow> string \<Rightarrow> error + draw_call" where
  "plot3d_proj_in_one_figure y ttl = plot3d_check Projections3D y ttl"

subsection \<open>Plotting: \<open>plot\<close>, \<open>__plot_dict\<close> and \<open>__plot_array\<close>\<close>

definition check_ref_error :: error where
  "check_ref_error = ValueError ''Check input data ref and self.data dimension.''"

text \<open>The choice of the drawing function by \<open>plot3d\<close>. For the 2-D plot the label of the
  x axis is built from \<open>x.output_units[0]\<close> before the call.\<close>

definition dispatch_plot ::
  "sim_data \<Rightarrow> int \<Rightarrow> pyval option \<Rightarrow> pyval \<Rightarrow> string \<Rightarrow> error + draw_call" where
  "dispatch_plot x plot3d x_data y_data ttl =
     (if plot3d = 1 then plot3d_in_one_figure y_data ttl
      else if plot3d = 2 then plot3d_proj_in_one_figure y_data ttl
      else if output_units x = [] then Inl IndexError
      else plot_in_one_figure x_data y_data ttl)"

text \<open>The \<open>except\<close> block of \<open>__plot_dict\<close> prints \<open>ref_data.shape\<close> and \<open>y_data.shape\<close>, then
  raises; \<open>y_data\<close> is the difference when the subtraction went through.\<close>

definition dict_handler :: "pyval \<Rightarrow> pyval \<Rightarrow> error" where
  "dict_handler ref_data y_now =
     (if has_shape ref_data \<and> has_shape y_now then check_ref_error else AttributeError)"

definition dict_difference :: "sim_data \<Rightarrow> pyval \<Rightarrow> pyval \<Rightarrow> error + pyval" where
  "dict_difference self y_data ref_data =
     (case subtract_ref self y_data ref_data of
        Inr d \<Rightarrow> Inr d
      | Inl NotModelled \<Rightarrow> Inl NotModelled
      | Inl e \<Rightarrow>
          Inl (dict_handler ref_data (case np_sub y_data ref_data of Inr d \<Rightarrow> d | Inl e' \<Rightarrow> y_data)))"

text \<open>The x axis for the key \<open>i\<close>: \<open>None\<close> for an empty dictionary, \<open>x.data[i]\<close> for a
  dictionary, \<open>x.data\<close> otherwise.\<close>

definition x_data_at :: "sim_data \<Rightarrow> pykey \<Rightarrow> error + pyval option" where
  "x_data_at x i =
     (case data x of
        PyDict xs \<Rightarrow>
          (if xs = [] then Inr None
           else (case dict_get xs i of Inl e \<Rightarrow> Inl e | Inr xv \<Rightarrow> Inr (Some xv)))
      | xv \<Rightarrow> Inr (Some xv))"

text \<open>The reference for the key \<open>i\<close>: \<open>ref.data[i]\<close> for a dictionary, \<open>ref.data\<close> otherwise.\<close>

definition ref_data_at :: "sim_data \<Rightarrow> pykey \<Rightarrow> error + pyval" where
  "ref_data_at r i = (case data r of PyDict rs \<Rightarrow> dict_get rs i | rv \<Rightarrow> Inr rv)"

text \<open>One round of the loop of \<open>__plot_dict\<close>, for the key \<open>i\<close>.\<close>

definition plot_dict_step ::
  "sim_data \<Rightarrow> sim_data \<Rightarrow> sim_data option \<Rightarrow> int \<Rightarrow> (pykey \<times> pyval) list \<Rightarrow> pykey \<Rightarrow> error + draw_call" where
  "plot_dict_step self x ref plot3d es i =
     (case dict_get es i of
        Inl e \<Rightarrow> Inl e
      | Inr y_data \<Rightarrow>
          (case x_data_at x i of
             Inl e \<Rightarrow> Inl e
           | Inr x_data \<Rightarrow>
               (case (case ref of
                        None \<Rightarrow> Inr y_data
                      | Some r \<Rightarrow>
                          (case ref_data_at r i of
                             Inl e \<Rightarrow> Inl e
                           | Inr ref_data \<Rightarrow> dict_difference self y_data ref_data)) of
                  Inl e \<Rightarrow> Inl e
                | Inr y_diff \<Rightarrow>
                    (case convert_unit y_diff (units self) (output_units self) of
                       Inl e \<Rightarrow> Inl e
                     | Inr y_out \<Rightarrow> dispatch_plot x plot3d x_data y_out (name self @ ''_'' @ str_key i)))))"

text \<open>\<open>for i in key\<close>: the figures drawn before an exception stay drawn.\<close>

fun plot_dict_loop ::
  "sim_data \<Rightarrow> sim_data \<Rightarrow> sim_data option \<Rightarrow> int \<Rightarrow> (pykey \<times> pyval) list \<Rightarrow> pykey list \<Rightarrow>
   draw_call list \<times> error option" where
  "plot_dict_loop self x ref plot3d es [] = ([], None)"
| "plot_dict_loop self x ref plot3d es (i # rest) =
     (case plot_dict_step self x ref plot3d es i of
        Inl e \<Rightarrow> ([], Some e)
      | Inr c \<Rightarrow>
          (let (calls, r) = plot_dict_loop self x ref plot3d es rest in (c # calls, r)))"

text \<open>\<open>__plot_dict\<close>, for the dictionary payload \<open>es\<close>. The argument \<open>key\<close> is \<open>None\<close> or a list
  of keys; \<open>for i in None\<close> raises \<open>TypeError\<close>.\<close>

definition plot_dict ::
  "sim_data \<Rightarrow> sim_data \<Rightarrow> pykey list option \<Rightarrow> sim_data option \<Rightarrow> int \<Rightarrow> (pykey \<times> pyval) list \<Rightarrow>
   draw_call list \<times> error option" where
  "plot_dict self x key ref plot3d es =
     (case key of
        None \<Rightarrow> ([], Some TypeError)
      | Some ks \<Rightarrow> plot_dict_loop self x ref plot3d es (if ks = [] then map fst es else ks))"

text \<open>\<open>__plot_array\<close>. Its \<open>except\<close> block starts with \<open>print(ref.shape)\<close>, and \<open>ref\<close> is a
  \<open>Sim_data\<close>, which has no such attribute.\<close>

definition array_difference :: "sim_data \<Rightarrow> pyval \<Rightarrow> pyval \<Rightarrow> error + pyval" where
  "array_difference self y_data ref_data =
     (case subtract_ref self y_data ref_data of
        Inr d \<Rightarrow> Inr d
      | Inl NotModelled \<Rightarrow> Inl NotModelled
      | Inl e \<Rightarrow> Inl AttributeError)"

definition plot_array_step :: "sim_data \<Rightarrow> sim_data \<Rightarrow> sim_data option \<Rightarrow> int \<Rightarrow> error + draw_call" where
  "plot_array_step self x ref plot3d =
     (let x_data = (case data x of
                      PyDict xs \<Rightarrow> (case xs of [] \<Rightarrow> None | (k, v) # rest \<Rightarrow> Some v)
                    | xv \<Rightarrow> Some xv)
      in case (case ref of
                 None \<Rightarrow> Inr (data self)
               | Some r \<Rightarrow> array_difference self (data self) (data r)) of
           Inl e \<Rightarrow> Inl e
         | Inr y_diff \<Rightarrow>
             (case convert_unit y_diff (units self) (output_units self) of
                Inl e \<Rightarrow> Inl e
              | Inr y_out \<Rightarrow> dispatch_plot x plot3d x_data y_out (name self)))"

definition plot_array :: "sim_data \<Rightarrow> sim_data \<Rightarrow> sim_data option \<Rightarrow> int \<Rightarrow> draw_call list \<times> error option" where
  "plot_array self x ref plot3d =
     (case plot_array_step self x ref plot3d of
        Inl e \<Rightarrow> ([], Some e)
      | Inr c \<Rightarrow> ([c], None))"

definition plot ::
  "sim_data \<Rightarrow> sim_data \<Rightarrow> pykey list option \<Rightarrow> sim_data option \<Rightarrow> int \<Rightarrow> draw_call list \<times> error option" where
  "plot self x key ref plot3d =
     (if plottable self then
        (case data self of
           PyDict es \<Rightarrow> plot_dict self x key ref plot3d es
         | _ \<Rightarrow> plot_array self x ref plot3d)
      else ([], None))"

text \<open>What it means that the figure \<open>c\<close> was drawn for the key \<open>k\<close> of the dictionary payload
  \<open>es\<close>: its title is the name and the key, and its series is the entry under \<open>k\<close>, less the
  reference when there is one, converted to the output units.\<close>

definition drawn_for :: "sim_data \<Rightarrow> sim_data option \<Rightarrow> (pykey \<times> pyval) list \<Rightarrow> pykey \<Rightarrow> draw_call \<Rightarrow> bool" where
  "drawn_for self ref es k c =
     (title c = name self @ ''_'' @ str_key k
      \<and> (\<exists>y y_diff. dict_get es k = Inr y
            \<and> (case ref of
                 None \<Rightarrow> y_diff = y
               | Some r \<Rightarrow> (\<exists>rd. ref_data_at r k = Inr rd \<and> dict_difference self y rd = Inr y_diff))
            \<and> convert_unit y_diff (units self) (output_units self) = Inr (y_series c)))"

subsection \<open>The numbers of a series\<close>

definition elements :: "pyval \<Rightarrow> real list" where
  "elements v =
     (case v of
        PyInt i \<Rightarrow> [of_int i]
      | PyFloat x \<Rightarrow> [x]
      | NpFloat x \<Rightarrow> [x]
      | NpInt i \<Rightarrow> [of_int i]
      | Arr1 xs \<Rightarrow> xs
      | Arr2 c rows \<Rightarrow> concat rows
      | ArrN sh xs \<Rightarrow> xs
      | PyList xs \<Rightarrow> xs
      | _ \<Rightarrow> [])"

definition in_half_open_pi :: "real \<Rightarrow> bool" where
  "in_half_open_pi v = (- pi < v \<and> v \<le> pi)"

text \<open>What a figure shows of the data \<open>y\<close> and the reference \<open>rd\<close> when the difference is
  wrapped: the difference \<open>d\<close>, its wrapped form \<open>w\<close> with every number in \<open>(-pi, pi]\<close>, and as
  plotted series the conversion of \<open>w\<close> into the output units.\<close>

definition wrapped_call :: "sim_data \<Rightarrow> pyval \<Rightarrow> pyval \<Rightarrow> draw_call \<Rightarrow> bool" where
  "wrapped_call self y rd c =
     (\<exists>d w. np_sub y rd = Inr d \<and> wrap_series d = Inr w \<and> list_all in_half_open_pi (elements w)
        \<and> convert_unit w (units self) (output_units self) = Inr (y_series c))"

subsection \<open>Example datasets for plotting\<close>

text \<open>A dataset with two keyed entries, written under the keys 0 and 1.\<close>

definition example_two_keys :: sim_data where
  "example_two_keys = fst (add_data example_keyed (Arr1 [2]) (Some (KInt 1)) None)"

definition time_axis :: sim_data where
  "time_axis = fst (add_data (Sim_data_init ''time'' ''sample time'' (Some [''s'']) None True False False ''on'' None)
                      (Arr1 [0]) None None)"

definition attitude_rad :: "string list \<Rightarrow> pyval \<Rightarrow> sim_data" where
  "attitude_rad out d =
     fst (add_data (Sim_data_init ''att'' ''Euler angles'' (Some [''rad'', ''rad'', ''rad'']) (Some out)
                      True False False ''on'' None) d None None)"

section \<open>Objects with identity\<close>

text \<open>
  Arrays, lists and dictionaries are objects: two variables can hold the same one, and a
  change made through one is seen through the other. To follow what the conversion
  functions do to the caller's objects, the store maps an address to the object that
  lives there, and a variable or a dictionary slot holds either an immutable number or
  string, or the address of an object. A new object gets the next free address.
\<close>

type_synonym addr = nat

datatype hvalue =
    HInt int
  | HFloat real
  | HNpFloat real
  | HNpInt int
  | HStr string
  | HRef addr

datatype hobject =
    OArr1 "real list"
  | OArr2 nat "real list list"
  | OArrN "nat list" "real list"
  | OList "real list"
  | ODict "(pykey \<times> hvalue) list"

type_synonym store = "hobject list"

definition fetch :: "store \<Rightarrow> addr \<Rightarrow> hobject option" where
  "fetch h a = (if a < length h then Some (h ! a) else None)"

definition alloc :: "store \<Rightarrow> hobject \<Rightarrow> store \<times> hvalue" where
  "alloc h obj = (h @ [obj], HRef (length h))"

text \<open>\<open>data.copy()\<close>: a new array with the same numbers, a new list, or a new dictionary
  whose slots hold the same objects as the old one (a shallow copy). A numpy scalar
  returns itself; Python numbers and strings have no \<open>copy\<close>. An address with no object
  is not a state of a Python program (\<open>NotModelled\<close>).\<close>

definition copy_object :: "store \<Rightarrow> hvalue \<Rightarrow> store \<times> (error + hvalue)" where
  "copy_object h x =
     (case x of
        HInt v \<Rightarrow> (h, Inl AttributeError)
      | HFloat v \<Rightarrow> (h, Inl AttributeError)
      | HStr s \<Rightarrow> (h, Inl AttributeError)
      | HNpFloat v \<Rightarrow> (h, Inr x)
      | HNpInt v \<Rightarrow> (h, Inr x)
      | HRef a \<Rightarrow>
          (case fetch h a of
             None \<Rightarrow> (h, Inl NotModelled)
           | Some obj \<Rightarrow> (let (h', r) = alloc h obj in (h', Inr r))))"

text \<open>
  \<open>convert_unit_ndarray_scalar(x, scale)\<close> on the store. For a two-dimensional array the
  loop assigns to the columns of \<open>x\<close> itself, \<open>x[:, i] = x[:, i] * scale[i]\<close>, and returns the
  same object. For a one-dimensional array \<open>x = x * scale[0]\<close> binds \<open>x\<close> to a new array.
\<close>

definition convert_unit_ndarray_scalar_store ::
  "store \<Rightarrow> hvalue \<Rightarrow> real list \<Rightarrow> store \<times> (error + hvalue)" where
  "convert_unit_ndarray_scalar_store h x scale =
     (let m = length scale in
      case x of
        HRef a \<Rightarrow>
          (case fetch h a of
             None \<Rightarrow> (h, Inl NotModelled)
           | Some (OArr2 c rows) \<Rightarrow>
               (h[a := OArr2 c (column_loop scale [0..<min m c] rows)], Inr (HRef a))
           | Some (OArr1 xs) \<Rightarrow>
               (if m = 0 then (h, Inl IndexError)
                else if scale ! 0 \<noteq> 0 then
                  (let (h', r) = alloc h (OArr1 (map (\<lambda>v. v * scale ! 0) xs)) in (h', Inr r))
                else (h, Inr (HRef a)))
           | Some (OArrN sh xs) \<Rightarrow> (h, Inr (HRef a))
           | Some (OList xs) \<Rightarrow> (h, Inl AttributeError)
           | Some (ODict es) \<Rightarrow> (h, Inl AttributeError))
      | HInt v \<Rightarrow> (if m = 0 then (h, Inl IndexError) else (h, Inr (HNpFloat (of_int v * scale ! 0))))
      | HFloat v \<Rightarrow> (if m = 0 then (h, Inl IndexError) else (h, Inr (HNpFloat (v * scale ! 0))))
      | HNpFloat v \<Rightarrow> (if m = 0 then (h, Inl IndexError) else (h, Inr (HNpFloat (v * scale ! 0))))
      | HNpInt v \<Rightarrow> (h, Inl (ValueError (ndim_message 0)))
      | HStr s \<Rightarrow> (h, Inl AttributeError))"

text \<open>A slot of a dictionary: reading \<open>x[i]\<close> and assigning \<open>x[i] = v\<close>.\<close>

fun slot_get :: "(pykey \<times> hvalue) list \<Rightarrow> pykey \<Rightarrow> hvalue option" where
  "slot_get [] k = None"
| "slot_get ((k', v') # es) k = (if k' = k then Some v' else slot_get es k)"

fun slot_set :: "(pykey \<times> hvalue) list \<Rightarrow> pykey \<Rightarrow> hvalue \<Rightarrow> (pykey \<times> hvalue) list" where
  "slot_set [] k v = [(k, v)]"
| "slot_set ((k', v') # es) k v = (if k' = k then (k', v) # es else (k', v') # slot_set es k v)"

text \<open>\<open>for i in x: x[i] = convert_unit_ndarray_scalar(x[i], scale)\<close> for the dictionary at
  the address \<open>a\<close>, over its keys. What was changed before an exception stays changed.\<close>

fun convert_slots :: "store \<Rightarrow> addr \<Rightarrow> pykey list \<Rightarrow> real list \<Rightarrow> store \<times> error option" where
  "convert_slots h a [] scale = (h, None)"
| "convert_slots h a (k # ks) scale =
     (case fetch h a of
        Some (ODict es) \<Rightarrow>
          (case slot_get es k of
             None \<Rightarrow> (h, Some KeyError)
           | Some v \<Rightarrow>
               (case convert_unit_ndarray_scalar_store h v scale of
                  (h', Inl e) \<Rightarrow> (h', Some e)
                | (h', Inr v') \<Rightarrow>
                    (case fetch h' a of
                       Some (ODict es') \<Rightarrow> convert_slots (h'[a := ODict (slot_set es' k v')]) a ks scale
                     | _ \<Rightarrow> (h', Some NotModelled))))
      | _ \<Rightarrow> (h, Some NotModelled))"

text \<open>\<open>convert_unit(data, src_unit, dst_unit)\<close> on the store: the store after the call, and
  the returned value or the exception.\<close>

definition convert_unit_store ::
  "store \<Rightarrow> hvalue \<Rightarrow> string list \<Rightarrow> string list \<Rightarrow> store \<times> (error + hvalue)" where
  "convert_unit_store h data_in src_unit dst_unit =
     (case unit_conversion_scale src_unit dst_unit of
        Inl e \<Rightarrow> (h, Inl e)
      | Inr scale \<Rightarrow>
          (case copy_object h data_in of
             (h1, Inl e) \<Rightarrow> (h1, Inl e)
           | (h1, Inr x) \<Rightarrow>
               (case x of
                  HRef a \<Rightarrow>
                    (case fetch h1 a of
                       Some (ODict es) \<Rightarrow>
                         (case convert_slots h1 a (map fst es) scale of
                            (h2, Some e) \<Rightarrow> (h2, Inl e)
                          | (h2, None) \<Rightarrow> (h2, Inr x))
                     | _ \<Rightarrow> convert_unit_ndarray_scalar_store h1 x scale)
                | _ \<Rightarrow> convert_unit_ndarray_scalar_store h1 x scale)))"

text \<open>The value of a number, a string or an object that is not a dictionary, as the
  functions on values above see it.\<close>

definition object_value :: "hobject \<Rightarrow> pyval option" where
  "object_value obj =
     (case obj of
        OArr1 xs \<Rightarrow> Some (Arr1 xs)
      | OArr2 c rows \<Rightarrow> Some (Arr2 c rows)
      | OArrN sh xs \<Rightarrow> Some (ArrN sh xs)
      | OList xs \<Rightarrow> Some (PyList xs)
      | ODict es \<Rightarrow> None)"

definition bare_value :: "store \<Rightarrow> hvalue \<Rightarrow> pyval option" where
  "bare_value h x =
     (case x of
        HInt i \<Rightarrow> Some (PyInt i)
      | HFloat v \<Rightarrow> Some (PyFloat v)
      | HNpFloat v \<Rightarrow> Some (NpFloat v)
      | HNpInt i \<Rightarrow> Some (NpInt i)
      | HStr s \<Rightarrow> Some (PyStr s)
      | HRef a \<Rightarrow> (case fetch h a of None \<Rightarrow> None | Some obj \<Rightarrow> object_value obj))"

text \<open>The value of a dictionary whose slots hold numbers, strings, arrays and lists, and
  the addresses its slots hold.\<close>

fun slot_values :: "store \<Rightarrow> (pykey \<times> hvalue) list \<Rightarrow> (pykey \<times> pyval) list option" where
  "slot_values h [] = Some []"
| "slot_values h ((k, v) # es) =
     (case bare_value h v of
        None \<Rightarrow> None
      | Some p \<Rightarrow> (case slot_values h es of None \<Rightarrow> None | Some ps \<Rightarrow> Some ((k, p) # ps)))"

fun refs_of :: "(pykey \<times> hvalue) list \<Rightarrow> addr list" where
  "refs_of [] = []"
| "refs_of ((k, HRef a) # es) = a # refs_of es"
| "refs_of ((k, v) # es) = refs_of es"

text \<open>A caller's store: the array \<open>[[1.0]]\<close> at address 0 and, at address 1, the
  dictionary \<open>{0: <the array at 0>}\<close>.\<close>

definition caller_store :: store where
  "caller_store = [OArr2 1 [[1]], ODict [(KInt 0, HRef 0)]]"

section \<open>Construction pads the unit lists\<close>

lemma append_loop_drop:
  "b \<le> length src \<Longrightarrow> append_loop src [a..<b] dst = dst @ drop a (take b src)"
proof (induction "b - a" arbitrary: a dst)
  case 0
  then show ?case by simp
next
  case (Suc n)
  then have ab: "a < b" by simp
  then have up: "[a..<b] = a # [Suc a..<b]" by (simp add: upt_conv_Cons)
  have "append_loop src [a..<b] dst = append_loop src [Suc a..<b] (dst @ [src ! a])"
    by (simp add: up)
  also have "\<dots> = (dst @ [src ! a]) @ drop (Suc a) (take b src)"
    using Suc by simp
  also have "\<dots> = dst @ drop a (take b src)"
  proof -
    have "a < length (take b src)" using ab Suc.prems by simp
    then have "take b src ! a # drop (Suc a) (take b src) = drop a (take b src)"
      by (rule Cons_nth_drop_Suc)
    moreover have "take b src ! a = src ! a" using ab by simp
    ultimately show ?thesis by simp
  qed
  finally show ?case .
qed

text \<open>
  C7. A dataset constructed with a units list and an output-units list of different
  lengths has the shorter one padded with the tail of the longer one, so the two lists
  end with the same length.
\<close>

theorem init_pads_units:
  assumes "length us \<noteq> length os"
  shows "units (Sim_data_init nm descr (Some us) (Some os) p lx ly g lg) = us @ drop (length us) os
       \<and> output_units (Sim_data_init nm descr (Some us) (Some os) p lx ly g lg) = os @ drop (length os) us
       \<and> length (units (Sim_data_init nm descr (Some us) (Some os) p lx ly g lg))
         = length (output_units (Sim_data_init nm descr (Some us) (Some os) p lx ly g lg))"
proof (cases "length us > length os")
  case True
  then show ?thesis
    by (simp add: Sim_data_init_def init_units_def Let_def append_loop_drop)
next
  case False
  with assms have "length us < length os" by simp
  then show ?thesis
    by (simp add: Sim_data_init_def init_units_def Let_def append_loop_drop)
qed

theorem init_pads_units_witness:
  "length [''m'', ''s''] \<noteq> length [''ft'']
   \<and> output_units (Sim_data_init ''d'' ''x'' (Some [''m'', ''s'']) (Some [''ft'']) True False False ''on'' None)
       = [''ft'', ''s'']
   \<and> length [''m''] \<noteq> length [''ft'', ''Hz'']
   \<and> units (Sim_data_init ''d'' ''x'' (Some [''m'']) (Some [''ft'', ''Hz'']) True False False ''on'' None)
       = [''m'', ''Hz'']"
  using init_pads_units [of "[''m'', ''s'']" "[''ft'']" "''d''" "''x''" True False False "''on''" None]
        init_pads_units [of "[''m'']" "[''ft'', ''Hz'']" "''d''" "''x''" True False False "''on''" None]
  by simp

section \<open>Writing into the container\<close>

lemma dict_get_set_same: "dict_get (dict_set es k v) k = Inr v"
  by (induction es) auto

lemma dict_get_set_other: "k' \<noteq> k \<Longrightarrow> dict_get (dict_set es k v) k' = dict_get es k'"
  by (induction es) auto

lemma example_keyed_eq:
  "example_keyed = \<lparr>name = ''gyro'', description = ''rate'', units = [''deg/s''], output_units = [''deg/s''],
      plottable = True, logx = False, logy = False, grid = ''on'', legend = None,
      data = PyDict [(KInt 0, Arr1 [1])]\<rparr>"
  by (simp add: example_keyed_def Sim_data_init_def init_units_def Let_def add_data_def add_data_units_def
      store_data_def lower_def)

lemma example_keyed_fields:
  "name example_keyed = ''gyro''"
  "data example_keyed = PyDict [(KInt 0, Arr1 [1])]"
  "units example_keyed = [''deg/s'']"
  "output_units example_keyed = [''deg/s'']"
  by (simp_all add: example_keyed_eq)

text \<open>
  C5. Let \<open>v\<close> be the value \<open>add_data\<close> stores (the given data, converted when caller units
  are given and differ; the given data itself when no units are given). With no key the
  payload becomes \<open>v\<close>, whatever it was before. With a key and a payload that is not a
  dictionary, the payload becomes the dictionary holding only that key. With a key and a
  dictionary payload, the key is set to \<open>v\<close> and every other key reads as before.
\<close>

theorem add_data_store:
  assumes "add_data_units self d us = Inr v"
  shows "add_data self d None us = (self\<lparr>data := v\<rparr>, None)
       \<and> (\<not> is_dict (data self) \<longrightarrow> add_data self d (Some k) us = (self\<lparr>data := PyDict [(k, v)]\<rparr>, None))
       \<and> (\<forall>es. data self = PyDict es \<longrightarrow>
             add_data self d (Some k) us = (self\<lparr>data := PyDict (dict_set es k v)\<rparr>, None)
             \<and> dict_get (dict_set es k v) k = Inr v
             \<and> (\<forall>k'. k' \<noteq> k \<longrightarrow> dict_get (dict_set es k v) k' = dict_get es k'))
       \<and> (us = None \<longrightarrow> v = d)"
  using assms
  by (auto simp: add_data_def store_data_def is_dict_def add_data_units_def dict_get_set_same dict_get_set_other
      split: pyval.splits)

theorem add_data_store_witness:
  "add_data_units example_keyed (NpFloat 5) None = Inr (NpFloat 5)
   \<and> add_data example_keyed (NpFloat 5) None None = (example_keyed\<lparr>data := NpFloat 5\<rparr>, None)
   \<and> add_data example_keyed (Arr1 [2]) (Some (KInt 1)) None
       = (example_keyed\<lparr>data := PyDict [(KInt 0, Arr1 [1]), (KInt 1, Arr1 [2])]\<rparr>, None)
   \<and> \<not> is_dict (data (example_keyed\<lparr>data := NpFloat 5\<rparr>))
   \<and> add_data (example_keyed\<lparr>data := NpFloat 5\<rparr>) (Arr1 [2]) (Some (KInt 1)) None
       = (example_keyed\<lparr>data := PyDict [(KInt 1, Arr1 [2])]\<rparr>, None)"
proof -
  have a: "add_data_units example_keyed (NpFloat 5) None = Inr (NpFloat 5)"
    by (simp add: add_data_units_def)
  have b: "add_data_units example_keyed (Arr1 [2]) None = Inr (Arr1 [2])"
    by (simp add: add_data_units_def)
  have c: "add_data_units (example_keyed\<lparr>data := NpFloat 5\<rparr>) (Arr1 [2]) None = Inr (Arr1 [2])"
    by (simp add: add_data_units_def)
  have n: "\<not> is_dict (data (example_keyed\<lparr>data := NpFloat 5\<rparr>))"
    by (simp add: is_dict_def)
  show ?thesis
    using a n add_data_store [OF a, of "KInt 0"] add_data_store [OF b, of "KInt 1"]
      add_data_store [OF c, of "KInt 1"]
    by (simp add: example_keyed_fields)
qed

lemma scale_loop_error: "scale_loop src dst idx sc = Inl e \<Longrightarrow> e = IndexError"
  by (induction src dst idx sc rule: scale_loop.induct) (auto split: if_splits)

lemma convert_unit_ndarray_scalar_error:
  "convert_unit_ndarray_scalar x sc = Inl e \<Longrightarrow>
     e = IndexError \<or> e = AttributeError \<or> e = ValueError (ndim_message 0)"
  by (auto simp: convert_unit_ndarray_scalar_def Let_def split: pyval.splits if_splits)

lemma convert_entries_error:
  "convert_entries es sc = Inl e \<Longrightarrow>
     e = IndexError \<or> e = AttributeError \<or> e = ValueError (ndim_message 0)"
proof (induction es sc rule: convert_entries.induct)
  case (1 scale)
  then show ?case by simp
next
  case (2 k v es scale)
  then show ?case
    by (auto split: sum.splits dest: convert_unit_ndarray_scalar_error)
qed

lemma convert_unit_error:
  "convert_unit d s t = Inl e \<Longrightarrow>
     e = IndexError \<or> e = AttributeError \<or> e = ValueError (ndim_message 0)"
  unfolding convert_unit_def unit_conversion_scale_def Let_def copy_value_def
  by (auto split: sum.splits pyval.splits
      dest: scale_loop_error convert_unit_ndarray_scalar_error convert_entries_error)

lemma convert_unit_not_units_error: "convert_unit d s t \<noteq> Inl units_length_error"
proof
  assume "convert_unit d s t = Inl units_length_error"
  from convert_unit_error [OF this] show False
    by (simp add: units_length_error_def ndim_message_def)
qed

text \<open>
  C6. When caller units are given, \<open>add_data\<close> raises the error "Units are of different
  lengths." exactly when the two unit lists differ in length, and the dataset is then
  left as it was. With lists of the same length that differ, \<open>convert_unit\<close> is applied:
  its result is stored, or its own exception leaves the dataset as it was. With equal
  lists the given data is stored as it is.
\<close>

theorem add_data_units_check:
  "(snd (add_data self d key (Some us)) = Some units_length_error \<longleftrightarrow> length us \<noteq> length (units self))
   \<and> (length us \<noteq> length (units self) \<longrightarrow> add_data self d key (Some us) = (self, Some units_length_error))
   \<and> (length us = length (units self) \<and> us \<noteq> units self \<longrightarrow>
        add_data self d key (Some us) =
          (case convert_unit d us (units self) of
             Inl e \<Rightarrow> (self, Some e)
           | Inr v \<Rightarrow> (store_data self key v, None)))
   \<and> (us = units self \<longrightarrow> add_data self d key (Some us) = (store_data self key d, None))"
  using convert_unit_not_units_error [of d us "units self"]
  by (auto simp: add_data_def add_data_units_def split: sum.splits)

lemma scale_deg_s_same: "unit_conversion_scale [''deg/s''] [''deg/s''] = Inr [0]"
  by (simp add: unit_conversion_scale_def upt_conv_Cons scale_entry_def)

lemma scale_rad_s_to_deg_s: "unit_conversion_scale [''rad/s''] [''deg/s''] = Inr [1 / D2R]"
  by (simp add: unit_conversion_scale_def upt_conv_Cons scale_entry_def)

theorem add_data_units_check_witness:
  "add_data example_keyed (Arr1 [pi]) None (Some [''rad/s'', ''rad/s'']) = (example_keyed, Some units_length_error)
   \<and> add_data example_keyed (Arr1 [pi]) None (Some [''rad/s'']) = (example_keyed\<lparr>data := Arr1 [180]\<rparr>, None)
   \<and> add_data example_keyed (PyFloat 1) None (Some [''rad/s'']) = (example_keyed, Some AttributeError)
   \<and> add_data example_keyed (Arr1 [pi]) None (Some [''deg/s'']) = (example_keyed\<lparr>data := Arr1 [pi]\<rparr>, None)"
proof -
  have c1: "convert_unit (Arr1 [pi]) [''rad/s''] [''deg/s''] = Inr (Arr1 [180])"
    by (simp add: convert_unit_def scale_rad_s_to_deg_s copy_value_def convert_unit_ndarray_scalar_def D2R_def)
  have c2: "convert_unit (PyFloat 1) [''rad/s''] [''deg/s''] = Inl AttributeError"
    by (simp add: convert_unit_def scale_rad_s_to_deg_s copy_value_def)
  show ?thesis
    using add_data_units_check [of example_keyed "Arr1 [pi]" None "[''rad/s'', ''rad/s'']"]
      add_data_units_check [of example_keyed "Arr1 [pi]" None "[''rad/s'']"]
      add_data_units_check [of example_keyed "PyFloat 1" None "[''rad/s'']"]
      add_data_units_check [of example_keyed "Arr1 [pi]" None "[''deg/s'']"]
    by (simp add: example_keyed_fields c1 c2 store_data_def)
qed

section \<open>Export\<close>

lemma str_int_0: "str_int 0 = ''0''"
  by (simp add: str_int_def str_nat.simps digit_char_def)

lemma save_loop_names:
  "save_loop self dir h es = (calls, r) \<Longrightarrow>
     map file_name calls = map (\<lambda>(k, v). keyed_file_name self dir k) (take (length calls) es)
     \<and> (r = None \<longrightarrow> length calls = length es)"
proof (induction es arbitrary: calls r)
  case Nil
  then show ?case by simp
next
  case (Cons kv es)
  obtain k v where kv: "kv = (k, v)" by (cases kv)
  show ?case
  proof (cases "convert_unit v (units self) (output_units self)")
    case (Inl e)
    with Cons.prems kv show ?thesis by auto
  next
    case (Inr t)
    obtain cs r' where rest: "save_loop self dir h es = (cs, r')"
      by (cases "save_loop self dir h es")
    from Cons.IH [OF rest] Cons.prems kv Inr rest show ?thesis by auto
  qed
qed

lemma save_example_keyed:
  "save_to_file example_keyed ''out'' =
     ([\<lparr>file_name = ''out//gyro-0.csv'', table = Arr1 [1], header = ''gyro (deg/s)''\<rparr>], None)"
  by (simp add: example_keyed_eq save_to_file_def header_cols_def cols_of_def ndim_def make_header_def
      convert_unit_def scale_deg_s_same copy_value_def convert_unit_ndarray_scalar_def
      keyed_file_name_def str_int_0)

text \<open>
  C9, as the claim states it, fails: the path handed to the serializer has two
  separators after the directory, not one.
\<close>

theorem save_to_file_single_separator_counterexample:
  "\<not> (map file_name (fst (save_to_file example_keyed ''out''))
        = [''out'' @ ''/'' @ name example_keyed @ ''-'' @ str_key (KInt 0) @ ''.csv''])"
  by (simp add: save_example_keyed example_keyed_fields str_int_0)

lemma scale_gyro:
  "unit_conversion_scale [''deg/s'', ''deg/s'', ''deg/s''] [''rad/s'', ''rad/s'', ''rad/s'']
     = Inr [D2R, D2R, D2R]"
  by (simp add: unit_conversion_scale_def upt_conv_Cons scale_entry_def)

lemma gyro_eq:
  "gyro = \<lparr>name = ''gyro'', description = ''angular rate'',
      units = [''deg/s'', ''deg/s'', ''deg/s''], output_units = [''rad/s'', ''rad/s'', ''rad/s''],
      plottable = True, logx = False, logy = False, grid = ''on'', legend = None, data = PyDict []\<rparr>"
  by (simp add: gyro_def Sim_data_init_def init_units_def Let_def lower_def)

lemma save_gyro_ones:
  "save_to_file (gyro\<lparr>data := ones_2x3\<rparr>) dir
     = ([\<lparr>file_name = dir @ ''//gyro.csv'',
          table = Arr2 3 [[pi / 180, pi / 180, pi / 180], [pi / 180, pi / 180, pi / 180]],
          header = ''gyro_0 (rad/s),gyro_1 (rad/s),gyro_2 (rad/s)''\<rparr>], None)"
  by (simp add: gyro_eq ones_2x3_def save_to_file_def header_cols_def is_ndarray_def cols_of_def
      ndim_def shape1_def make_header_def upt_conv_Cons has_legend_def str_unit_at_def
      str_nat.simps digit_char_def convert_unit_def scale_gyro copy_value_def
      convert_unit_ndarray_scalar_def scale_column_def bare_file_name_def D2R_def)

text \<open>
  C9, amended. For a dictionary payload, the paths an export hands to the serializer
  are \<open>dir + "//" + name + "-" + str(key) + ".csv"\<close>, one per key in the order of the keys,
  up to the key at which an exception stops the export (all keys when there is none). For
  any other payload an export that completes hands over the single path
  \<open>dir + "//" + name + ".csv"\<close>, and one that raises hands over nothing.
\<close>

theorem save_to_file_names:
  assumes "save_to_file self dir = (calls, res)"
  shows "(\<forall>es. data self = PyDict es \<longrightarrow>
            map file_name calls
              = map (\<lambda>(k, v). dir @ ''//'' @ name self @ ''-'' @ str_key k @ ''.csv'') (take (length calls) es)
            \<and> (res = None \<longrightarrow> length calls = length es))
       \<and> (\<not> is_dict (data self) \<longrightarrow>
            (res = None \<longrightarrow> map file_name calls = [dir @ ''//'' @ name self @ ''.csv''])
            \<and> (res \<noteq> None \<longrightarrow> calls = []))"
proof (cases "header_cols (data self)")
  case (Inl e)
  with assms show ?thesis by (auto simp: save_to_file_def)
next
  case (Inr cols)
  show ?thesis
  proof (intro conjI allI impI)
    fix es assume d: "data self = PyDict es"
    with assms Inr have loop: "save_loop self dir (make_header self cols) es = (calls, res)"
      by (simp add: save_to_file_def)
    from save_loop_names [OF loop]
    show "map file_name calls
            = map (\<lambda>(k, v). dir @ ''//'' @ name self @ ''-'' @ str_key k @ ''.csv'') (take (length calls) es)"
      by (simp add: keyed_file_name_def)
    assume "res = None"
    with save_loop_names [OF loop] show "length calls = length es" by simp
  next
    assume "\<not> is_dict (data self)" and "res = None"
    with assms Inr show "map file_name calls = [dir @ ''//'' @ name self @ ''.csv'']"
      by (auto simp: save_to_file_def Let_def bare_file_name_def is_dict_def split: pyval.splits sum.splits)
  next
    assume "\<not> is_dict (data self)" and "res \<noteq> None"
    with assms Inr show "calls = []"
      by (auto simp: save_to_file_def Let_def is_dict_def split: pyval.splits sum.splits)
  qed
qed

theorem save_to_file_names_witness:
  "save_to_file example_keyed ''out'' =
     ([\<lparr>file_name = ''out//gyro-0.csv'', table = Arr1 [1], header = ''gyro (deg/s)''\<rparr>], None)
   \<and> map file_name (fst (save_to_file example_keyed ''out'')) = [''out//gyro-0.csv'']
   \<and> \<not> is_dict (data (gyro\<lparr>data := ones_2x3\<rparr>))
   \<and> map file_name (fst (save_to_file (gyro\<lparr>data := ones_2x3\<rparr>) ''out'')) = [''out//gyro.csv'']"
proof -
  have n: "\<not> is_dict (data (gyro\<lparr>data := ones_2x3\<rparr>))"
    by (simp add: is_dict_def ones_2x3_def)
  have g: "name (gyro\<lparr>data := ones_2x3\<rparr>) = ''gyro''" by (simp add: gyro_eq)
  from save_to_file_names [OF save_example_keyed] save_to_file_names [OF save_gyro_ones, of "''out''"] n g
  show ?thesis
    by (simp add: save_example_keyed save_gyro_ones example_keyed_fields str_int_0)
qed

text \<open>
  C3. The dataset \<open>gyro\<close> is created with units deg/s and output units rad/s. Writing the
  2x3 table of ones with caller units deg/s stores the table unconverted. Exporting then
  makes one call of the serializer, with the table whose every cell is \<open>pi / 180\<close> and the
  header \<open>gyro_0 (rad/s),gyro_1 (rad/s),gyro_2 (rad/s)\<close>.
\<close>

theorem gyro_export:
  "add_data gyro ones_2x3 None (Some [''deg/s'', ''deg/s'', ''deg/s'']) = (gyro\<lparr>data := ones_2x3\<rparr>, None)
   \<and> save_to_file (fst (add_data gyro ones_2x3 None (Some [''deg/s'', ''deg/s'', ''deg/s'']))) dir
       = ([\<lparr>file_name = dir @ ''//gyro.csv'',
            table = Arr2 3 [[pi / 180, pi / 180, pi / 180], [pi / 180, pi / 180, pi / 180]],
            header = ''gyro_0 (rad/s),gyro_1 (rad/s),gyro_2 (rad/s)''\<rparr>], None)"
proof -
  have w: "add_data gyro ones_2x3 None (Some [''deg/s'', ''deg/s'', ''deg/s'']) = (gyro\<lparr>data := ones_2x3\<rparr>, None)"
    by (simp add: gyro_eq add_data_def add_data_units_def store_data_def)
  show ?thesis by (simp add: w save_gyro_ones)
qed

section \<open>The conversion functions on single values\<close>

lemma scale_m_same: "unit_conversion_scale [''m''] [''m''] = Inr [0]"
  by (simp add: unit_conversion_scale_def upt_conv_Cons scale_entry_def)

lemma scale_deg_to_rad: "unit_conversion_scale [''deg''] [''rad''] = Inr [D2R]"
  by (simp add: unit_conversion_scale_def upt_conv_Cons scale_entry_def)

text \<open>
  C2 at a scalar. Units outside the table give the scale 0, and the scalar branch of
  \<open>convert_unit_ndarray_scalar\<close> multiplies by it without the test for 0 that the array
  branches make: converting the numpy scalar 2.0 from m to m returns 0.0, and so does the
  conversion back. A Python float is not converted at all: \<open>data.copy()\<close> raises.
\<close>

theorem convert_unit_scalar_zero_scale:
  "convert_unit (NpFloat 2) [''m''] [''m''] = Inr (NpFloat 0)
   \<and> convert_unit (NpFloat 0) [''m''] [''m''] = Inr (NpFloat 0)
   \<and> convert_unit (PyFloat 2) [''deg''] [''rad''] = Inl AttributeError"
  by (simp add: convert_unit_def scale_m_same scale_deg_to_rad copy_value_def convert_unit_ndarray_scalar_def)

text \<open>
  C8 at a three-dimensional array, a list and a string. The array is returned as it is,
  without any exception; the list and the string raise \<open>AttributeError\<close> while the message
  of the \<open>ValueError\<close> is being built. A numpy integer scalar does reach the \<open>ValueError\<close>.
\<close>

theorem convert_unit_ndarray_scalar_other_inputs:
  "convert_unit_ndarray_scalar (ArrN [1, 1, 1] [5]) [2] = Inr (ArrN [1, 1, 1] [5])
   \<and> convert_unit_ndarray_scalar (PyList [5]) [2] = Inl AttributeError
   \<and> convert_unit_ndarray_scalar (PyStr ''abc'') [2] = Inl AttributeError
   \<and> convert_unit_ndarray_scalar (NpInt 5) [2]
       = Inl (ValueError ''Input x should be a scalar, 1D or 2D array, ndim = 0'')"
  by (simp add: convert_unit_ndarray_scalar_def ndim_message_def str_nat.simps digit_char_def)

section \<open>Plotting\<close>

lemma pi_gt_three: "3 < pi"
proof -
  let ?a = "pi / 12"
  have a_pos: "0 < ?a" by simp
  have a_lt: "?a < pi" using pi_gt_zero by linarith
  have s_pos: "0 < sin ?a" using a_pos a_lt by (rule sin_gt_zero)
  have s_le: "sin ?a \<le> ?a" by (rule sin_x_le_x) simp
  have "cos (2 * (pi / 24)) < 1"
    using pi_less_4 by (intro cos_double_less_one) simp_all
  then have c_lt: "cos ?a < 1" by simp
  have "sin (pi / 6) = 2 * sin ?a * cos ?a"
    using sin_double [of ?a] by simp
  also have "\<dots> < 2 * sin ?a * 1"
    using s_pos c_lt by (intro mult_strict_left_mono) simp_all
  also have "\<dots> \<le> 2 * ?a" using s_le by simp
  finally have "1 / 2 < pi / 6" by (simp add: sin_30)
  then show ?thesis by simp
qed

lemma py_mod_range:
  assumes "0 < m"
  shows "0 \<le> py_mod v m \<and> py_mod v m < m"
proof -
  have "of_int \<lfloor>v / m\<rfloor> * m \<le> v"
    using assms of_int_floor_le [of "v / m"] by (simp only: pos_le_divide_eq)
  moreover have "v < (of_int \<lfloor>v / m\<rfloor> + 1) * m"
    using assms real_of_int_floor_add_one_gt [of "v / m"] by (simp only: pos_divide_less_eq)
  ultimately show ?thesis by (simp add: py_mod_def algebra_simps)
qed

lemma wrap_angle_range: "in_half_open_pi (wrap_angle v)"
proof -
  have "0 \<le> py_mod v TWO_PI \<and> py_mod v TWO_PI < TWO_PI"
    by (rule py_mod_range) (simp add: TWO_PI_def)
  then show ?thesis
    using pi_gt_zero by (auto simp: wrap_angle_def in_half_open_pi_def Let_def TWO_PI_def)
qed

lemma wrap_series_range:
  "wrap_series d = Inr w \<Longrightarrow> list_all in_half_open_pi (elements w)"
  by (auto simp: wrap_series_def elements_def list_all_iff wrap_angle_range split: pyval.splits)

lemma py_mod_small: "0 \<le> v \<Longrightarrow> v < m \<Longrightarrow> py_mod v m = v"
proof -
  assume a: "0 \<le> v" "v < m"
  then have "\<lfloor>v / m\<rfloor> = 0" by (simp add: floor_eq_iff)
  then show ?thesis by (simp add: py_mod_def)
qed

lemma wrap_angle_6: "wrap_angle 6 = 6 - 2 * pi"
proof -
  have "py_mod 6 TWO_PI = 6"
    using pi_gt_three by (intro py_mod_small) (simp_all add: TWO_PI_def)
  then show ?thesis using pi_less_4 by (simp add: wrap_angle_def TWO_PI_def)
qed

lemma wrap_angle_1: "wrap_angle 1 = 1"
proof -
  have "py_mod 1 TWO_PI = 1"
    using pi_gt_three by (intro py_mod_small) (simp_all add: TWO_PI_def)
  then show ?thesis using pi_gt_three by (simp add: wrap_angle_def TWO_PI_def)
qed

lemma wrap_angle_0: "wrap_angle 0 = 0"
proof -
  have "py_mod 0 TWO_PI = 0"
    using pi_gt_three by (intro py_mod_small) (simp_all add: TWO_PI_def)
  then show ?thesis using pi_gt_three by (simp add: wrap_angle_def TWO_PI_def)
qed

lemma dispatch_plot_fields:
  "dispatch_plot x plot3d x_data y ttl = Inr c \<Longrightarrow> title c = ttl \<and> y_series c = y"
  by (auto simp: dispatch_plot_def plot3d_in_one_figure_def plot3d_proj_in_one_figure_def
      plot3d_check_def plot_in_one_figure_def split: if_splits sum.splits option.splits)

lemma dict_difference_wrapped:
  assumes "units self = [''rad'', ''rad'', ''rad'']" and "dict_difference self y rd = Inr w"
  shows "\<exists>d. np_sub y rd = Inr d \<and> wrap_series d = Inr w"
  using assms
  by (auto simp: dict_difference_def subtract_ref_def split: sum.splits error.splits)

lemma array_difference_wrapped:
  assumes "units self = [''rad'', ''rad'', ''rad'']" and "array_difference self y rd = Inr w"
  shows "\<exists>d. np_sub y rd = Inr d \<and> wrap_series d = Inr w"
  using assms
  by (auto simp: array_difference_def subtract_ref_def split: sum.splits error.splits)

lemma plot_dict_step_wrapped:
  assumes "units self = [''rad'', ''rad'', ''rad'']"
    and "plot_dict_step self x (Some r) plot3d es i = Inr c"
  shows "\<exists>y rd. dict_get es i = Inr y \<and> ref_data_at r i = Inr rd
           \<and> title c = name self @ ''_'' @ str_key i \<and> wrapped_call self y rd c"
proof -
  from assms(2) obtain y x_data rd w y_out where
    y: "dict_get es i = Inr y" and rd: "ref_data_at r i = Inr rd"
    and w: "dict_difference self y rd = Inr w"
    and conv: "convert_unit w (units self) (output_units self) = Inr y_out"
    and disp: "dispatch_plot x plot3d x_data y_out (name self @ ''_'' @ str_key i) = Inr c"
    by (auto simp: plot_dict_step_def split: sum.splits)
  from dict_difference_wrapped [OF assms(1) w] obtain d where
    d: "np_sub y rd = Inr d" "wrap_series d = Inr w" by blast
  from dispatch_plot_fields [OF disp] have t: "title c = name self @ ''_'' @ str_key i" "y_series c = y_out"
    by simp_all
  have "wrapped_call self y rd c"
    unfolding wrapped_call_def using d conv t wrap_series_range [OF d(2)] by auto
  with y rd t show ?thesis by blast
qed

lemma plot_dict_loop_wrapped:
  assumes "units self = [''rad'', ''rad'', ''rad'']"
  shows "plot_dict_loop self x (Some r) plot3d es ks = (calls, res) \<Longrightarrow>
     \<forall>c\<in>set calls. \<exists>i y rd. dict_get es i = Inr y \<and> ref_data_at r i = Inr rd
           \<and> title c = name self @ ''_'' @ str_key i \<and> wrapped_call self y rd c"
proof (induction ks arbitrary: calls res)
  case Nil
  then show ?case by simp
next
  case (Cons i rest)
  show ?case
  proof (cases "plot_dict_step self x (Some r) plot3d es i")
    case (Inl e)
    with Cons.prems show ?thesis by simp
  next
    case (Inr c)
    obtain cs r' where rest: "plot_dict_loop self x (Some r) plot3d es rest = (cs, r')"
      by (cases "plot_dict_loop self x (Some r) plot3d es rest")
    from Cons.prems Inr rest have calls: "calls = c # cs" by simp
    from plot_dict_step_wrapped [OF assms Inr] Cons.IH [OF rest] calls
    show ?thesis by auto
  qed
qed


lemma plot_array_wrapped:
  assumes "units self = [''rad'', ''rad'', ''rad'']"
    and "plot_array self x (Some r) plot3d = (calls, None)"
  shows "\<exists>c. calls = [c] \<and> title c = name self \<and> wrapped_call self (data self) (data r) c"
proof -
  from assms(2) obtain c where c: "plot_array_step self x (Some r) plot3d = Inr c" "calls = [c]"
    by (auto simp: plot_array_def split: sum.splits)
  from c(1) obtain x_data w y_out where
    w: "array_difference self (data self) (data r) = Inr w"
    and conv: "convert_unit w (units self) (output_units self) = Inr y_out"
    and disp: "dispatch_plot x plot3d x_data y_out (name self) = Inr c"
    by (auto simp: plot_array_step_def Let_def split: sum.splits)
  from array_difference_wrapped [OF assms(1) w] obtain d where
    d: "np_sub (data self) (data r) = Inr d" "wrap_series d = Inr w" by blast
  from dispatch_plot_fields [OF disp] have t: "title c = name self" "y_series c = y_out"
    by simp_all
  have "wrapped_call self (data self) (data r) c"
    unfolding wrapped_call_def using d conv t wrap_series_range [OF d(2)] by auto
  with c(2) t show ?thesis by blast
qed

lemma scale_rad3_same:
  "unit_conversion_scale [''rad'', ''rad'', ''rad''] [''rad'', ''rad'', ''rad''] = Inr [0, 0, 0]"
  by (simp add: unit_conversion_scale_def upt_conv_Cons scale_entry_def)

lemma column_loop_zero:
  "\<forall>i\<in>set idx. scale ! i = 0 \<Longrightarrow> column_loop scale idx rows = rows"
  by (induction idx arbitrary: rows) auto

lemma column_loop_three_zeros:
  "column_loop [0, 0, 0] [0..<min (length [0, 0, 0 :: real]) c] rows = rows"
  by (rule column_loop_zero) (auto simp: numeral_3_eq_3 less_Suc_eq)

lemma convert_wrapped_same_units:
  assumes "wrap_series d = Inr w"
  shows "convert_unit w [''rad'', ''rad'', ''rad''] [''rad'', ''rad'', ''rad''] = Inr w"
  using assms
  by (auto simp: wrap_series_def convert_unit_def scale_rad3_same copy_value_def
      convert_unit_ndarray_scalar_def column_loop_three_zeros [simplified] split: pyval.splits)

text \<open>
  C4, amended. Take a plottable dataset whose units are exactly rad, rad, rad, and a plot
  call with a reference. For every figure drawn, the difference of the data and the
  reference is taken modulo \<open>2 * pi\<close> and reduced by \<open>2 * pi\<close> wherever the residual exceeds
  \<open>pi\<close>, so every number of the wrapped difference lies in \<open>(-pi, pi]\<close>; the plotted series
  is the wrapped difference converted from the units to the output units. When the
  output units are the units, the plotted numbers themselves lie in \<open>(-pi, pi]\<close>. A payload
  that is not a dictionary gives exactly one figure when the call completes.
\<close>

theorem plot_wraps_difference:
  assumes "plottable self" and "units self = [''rad'', ''rad'', ''rad'']"
    and "plot self x key (Some r) plot3d = (calls, res)"
  shows "(\<forall>es. data self = PyDict es \<longrightarrow>
            (\<forall>c\<in>set calls. \<exists>i y rd. dict_get es i = Inr y \<and> ref_data_at r i = Inr rd
                \<and> title c = name self @ ''_'' @ str_key i \<and> wrapped_call self y rd c))
       \<and> (\<not> is_dict (data self) \<longrightarrow>
            (\<forall>c\<in>set calls. title c = name self \<and> wrapped_call self (data self) (data r) c)
            \<and> (res = None \<longrightarrow> length calls = 1))
       \<and> (output_units self = units self \<longrightarrow>
            (\<forall>c\<in>set calls. list_all in_half_open_pi (elements (y_series c))))"
proof -
  have dict: "\<forall>c\<in>set calls. \<exists>i y rd. dict_get es i = Inr y \<and> ref_data_at r i = Inr rd
                \<and> title c = name self @ ''_'' @ str_key i \<and> wrapped_call self y rd c"
    if "data self = PyDict es" for es
  proof (cases key)
    case None
    with assms(1,3) that have "calls = []" by (simp add: plot_def plot_dict_def)
    then show ?thesis by simp
  next
    case (Some ks)
    with assms(1,3) that obtain ks' where
      "plot_dict_loop self x (Some r) plot3d es ks' = (calls, res)"
      by (simp add: plot_def plot_dict_def)
    from plot_dict_loop_wrapped [OF assms(2) this] show ?thesis .
  qed
  have arr: "(\<forall>c\<in>set calls. title c = name self \<and> wrapped_call self (data self) (data r) c)
               \<and> (res = None \<longrightarrow> length calls = 1)"
    if "\<not> is_dict (data self)"
  proof -
    from assms(1,3) that have pa: "plot_array self x (Some r) plot3d = (calls, res)"
      by (auto simp: plot_def is_dict_def split: pyval.splits)
    show ?thesis
    proof (cases res)
      case None
      with pa plot_array_wrapped [OF assms(2), of x r plot3d calls] show ?thesis by auto
    next
      case (Some e)
      with pa have "calls = []" by (auto simp: plot_array_def split: sum.splits)
      with Some show ?thesis by simp
    qed
  qed
  have every: "\<forall>c\<in>set calls. \<exists>y rd. wrapped_call self y rd c"
  proof (cases "is_dict (data self)")
    case True
    then obtain es where "data self = PyDict es"
      by (auto simp: is_dict_def split: pyval.splits)
    from dict [OF this] show ?thesis by blast
  next
    case False
    from arr [OF this] show ?thesis by blast
  qed
  have same: "\<forall>c\<in>set calls. list_all in_half_open_pi (elements (y_series c))"
    if "output_units self = units self"
  proof
    fix c assume "c \<in> set calls"
    with every obtain y rd where "wrapped_call self y rd c" by blast
    then obtain d w where w: "wrap_series d = Inr w" "list_all in_half_open_pi (elements w)"
      "convert_unit w (units self) (output_units self) = Inr (y_series c)"
      unfolding wrapped_call_def by blast
    from convert_wrapped_same_units [OF w(1)] w(3) that assms(2) have "y_series c = w" by simp
    with w(2) show "list_all in_half_open_pi (elements (y_series c))" by simp
  qed
  from dict arr same show ?thesis by blast
qed

lemma time_axis_eq:
  "time_axis = \<lparr>name = ''time'', description = ''sample time'', units = [''s''], output_units = [''s''],
      plottable = True, logx = False, logy = False, grid = ''on'', legend = None, data = Arr1 [0]\<rparr>"
  by (simp add: time_axis_def Sim_data_init_def init_units_def Let_def add_data_def add_data_units_def
      store_data_def lower_def)

lemma attitude_rad_eq:
  "length out = 3 \<Longrightarrow>
   attitude_rad out d = \<lparr>name = ''att'', description = ''Euler angles'',
      units = [''rad'', ''rad'', ''rad''], output_units = out,
      plottable = True, logx = False, logy = False, grid = ''on'', legend = None, data = d\<rparr>"
  by (simp add: attitude_rad_def Sim_data_init_def init_units_def Let_def add_data_def add_data_units_def
      store_data_def lower_def)

lemma scale_rad3_deg3:
  "unit_conversion_scale [''rad'', ''rad'', ''rad''] [''deg'', ''deg'', ''deg''] = Inr [1 / D2R, 1 / D2R, 1 / D2R]"
  by (simp add: unit_conversion_scale_def upt_conv_Cons scale_entry_def)

lemma plot_three_against_minus_three:
  "plot (attitude_rad [''rad'', ''rad'', ''rad''] (Arr2 3 [[3, 3, 3]])) time_axis None
        (Some (attitude_rad [''rad'', ''rad'', ''rad''] (Arr2 3 [[- 3, - 3, - 3]]))) 0
     = ([\<lparr>kind = Lines2D, title = ''att'', x_series = Some (Arr1 [0]),
          y_series = Arr2 3 [[6 - 2 * pi, 6 - 2 * pi, 6 - 2 * pi]]\<rparr>], None)"
  by (simp add: attitude_rad_eq time_axis_eq plot_def plot_array_def plot_array_step_def
      array_difference_def subtract_ref_def np_sub_def operand_of_def sub_mat_def broadcast_len_def
      broadcast_def wrap_series_def wrap_angle_6 convert_unit_def scale_rad3_same copy_value_def
      convert_unit_ndarray_scalar_def upt_conv_Cons dispatch_plot_def plot_in_one_figure_def ndim_def)

lemma plot_in_degrees:
  "plot (attitude_rad [''deg'', ''deg'', ''deg''] (Arr2 3 [[1, 0, 0]])) time_axis None
        (Some (attitude_rad [''deg'', ''deg'', ''deg''] (Arr2 3 [[0, 0, 0]]))) 0
     = ([\<lparr>kind = Lines2D, title = ''att'', x_series = Some (Arr1 [0]),
          y_series = Arr2 3 [[180 / pi, 0, 0]]\<rparr>], None)"
  by (simp add: attitude_rad_eq time_axis_eq plot_def plot_array_def plot_array_step_def
      array_difference_def subtract_ref_def np_sub_def operand_of_def sub_mat_def broadcast_len_def
      broadcast_def wrap_series_def wrap_angle_1 wrap_angle_0 convert_unit_def scale_rad3_deg3 copy_value_def
      convert_unit_ndarray_scalar_def upt_conv_Cons scale_column_def D2R_def
      dispatch_plot_def plot_in_one_figure_def ndim_def)

text \<open>
  C4, as the claim states it, fails when the output units are degrees: the wrapped
  difference 1 rad is plotted as \<open>180 / pi\<close>, which is not in \<open>(-pi, pi]\<close>.
\<close>

theorem plot_in_degrees_counterexample:
  "\<not> (\<forall>c\<in>set (fst (plot (attitude_rad [''deg'', ''deg'', ''deg''] (Arr2 3 [[1, 0, 0]])) time_axis None
                        (Some (attitude_rad [''deg'', ''deg'', ''deg''] (Arr2 3 [[0, 0, 0]]))) 0)).
        list_all in_half_open_pi (elements (y_series c)))"
proof -
  have "pi * pi < 4 * 4" using pi_less_4 pi_gt_zero by (intro mult_strict_mono) simp_all
  then have "pi < 180 / pi" using pi_gt_zero by (simp add: pos_less_divide_eq)
  then show ?thesis
    by (simp add: plot_in_degrees elements_def in_half_open_pi_def)
qed

text \<open>The data 3.0 against the reference -3.0 is plotted as \<open>6 - 2 * pi\<close>, not as 6.\<close>

theorem plot_wraps_difference_witness:
  "plottable (attitude_rad [''rad'', ''rad'', ''rad''] (Arr2 3 [[3, 3, 3]]))
   \<and> units (attitude_rad [''rad'', ''rad'', ''rad''] (Arr2 3 [[3, 3, 3]])) = [''rad'', ''rad'', ''rad'']
   \<and> plot (attitude_rad [''rad'', ''rad'', ''rad''] (Arr2 3 [[3, 3, 3]])) time_axis None
        (Some (attitude_rad [''rad'', ''rad'', ''rad''] (Arr2 3 [[- 3, - 3, - 3]]))) 0
      = ([\<lparr>kind = Lines2D, title = ''att'', x_series = Some (Arr1 [0]),
           y_series = Arr2 3 [[6 - 2 * pi, 6 - 2 * pi, 6 - 2 * pi]]\<rparr>], None)
   \<and> in_half_open_pi (6 - 2 * pi)"
proof -
  let ?self = "attitude_rad [''rad'', ''rad'', ''rad''] (Arr2 3 [[3, 3, 3]])"
  have p: "plottable ?self" by (simp add: attitude_rad_eq)
  have u: "units ?self = [''rad'', ''rad'', ''rad'']" by (simp add: attitude_rad_eq)
  have o: "output_units ?self = units ?self" by (simp add: attitude_rad_eq)
  from plot_wraps_difference [OF p u plot_three_against_minus_three] o
  have "in_half_open_pi (6 - 2 * pi)" by (simp add: elements_def)
  with p u plot_three_against_minus_three show ?thesis by simp
qed

lemma plot_dict_step_drawn:
  assumes "plot_dict_step self x ref plot3d es i = Inr c"
  shows "drawn_for self ref es i c"
proof -
  from assms obtain y x_data y_diff y_out where
    y: "dict_get es i = Inr y"
    and diff: "(case ref of
                  None \<Rightarrow> Inr y
                | Some r \<Rightarrow>
                    (case ref_data_at r i of
                       Inl e \<Rightarrow> Inl e
                     | Inr ref_data \<Rightarrow> dict_difference self y ref_data)) = Inr y_diff"
    and conv: "convert_unit y_diff (units self) (output_units self) = Inr y_out"
    and disp: "dispatch_plot x plot3d x_data y_out (name self @ ''_'' @ str_key i) = Inr c"
    by (auto simp: plot_dict_step_def split: sum.splits)
  from dispatch_plot_fields [OF disp]
  have t: "title c = name self @ ''_'' @ str_key i" "y_series c = y_out" by simp_all
  from diff have "case ref of
                    None \<Rightarrow> y_diff = y
                  | Some r \<Rightarrow> (\<exists>rd. ref_data_at r i = Inr rd \<and> dict_difference self y rd = Inr y_diff)"
    by (auto split: option.splits sum.splits)
  with y conv t show ?thesis
    unfolding drawn_for_def by auto
qed

text \<open>The loop draws one figure for each key of its list, in the order of the list, up to
  the key at which an exception stops it.\<close>

lemma plot_dict_loop_drawn:
  "plot_dict_loop self x ref plot3d es ks = (calls, res) \<Longrightarrow>
     list_all2 (drawn_for self ref es) (take (length calls) ks) calls
     \<and> (res = None \<longrightarrow> length calls = length ks)"
proof (induction ks arbitrary: calls res)
  case Nil
  then show ?case by simp
next
  case (Cons i rest)
  show ?case
  proof (cases "plot_dict_step self x ref plot3d es i")
    case (Inl e)
    with Cons.prems show ?thesis by auto
  next
    case (Inr c)
    obtain cs r' where rest: "plot_dict_loop self x ref plot3d es rest = (cs, r')"
      by (cases "plot_dict_loop self x ref plot3d es rest")
    from Cons.prems Inr rest have calls: "calls = c # cs" "res = r'" by simp_all
    from plot_dict_step_drawn [OF Inr] Cons.IH [OF rest] calls show ?thesis by simp
  qed
qed

text \<open>
  C10. On a plottable dataset whose payload is a dictionary, \<open>plot\<close> with the default
  \<open>key=None\<close> raises \<open>TypeError\<close> before anything is drawn. With \<open>key=[]\<close> it does what it
  does with the list of all keys of the payload: it draws one figure for each key of the
  payload, in their order (up to the key at which an exception stops it), titled with the
  name and the key. With a list of keys that is not empty it draws one figure for each
  key of that list and no other: only the empty list selects every key.
\<close>

theorem plot_without_keys:
  assumes "plottable self" and "data self = PyDict es"
  shows "plot self x None ref plot3d = ([], Some TypeError)
       \<and> plot self x (Some []) ref plot3d = plot self x (Some (map fst es)) ref plot3d
       \<and> (\<forall>calls. plot self x (Some []) ref plot3d = (calls, None) \<longrightarrow>
             map title calls = map (\<lambda>(k, v). name self @ ''_'' @ str_key k) es)
       \<and> (\<forall>calls res. plot self x (Some []) ref plot3d = (calls, res) \<longrightarrow>
             list_all2 (drawn_for self ref es) (take (length calls) (map fst es)) calls
             \<and> (res = None \<longrightarrow> length calls = length es))
       \<and> (\<forall>ks calls res. ks \<noteq> [] \<and> plot self x (Some ks) ref plot3d = (calls, res) \<longrightarrow>
             list_all2 (drawn_for self ref es) (take (length calls) ks) calls
             \<and> (res = None \<longrightarrow> length calls = length ks))"
proof -
  have titles: "map title calls = map (\<lambda>(k, v). name self @ ''_'' @ str_key k) es"
    if "plot self x (Some []) ref plot3d = (calls, None)" for calls
  proof -
    from that assms have "plot_dict_loop self x ref plot3d es (map fst es) = (calls, None)"
      by (simp add: plot_def plot_dict_def)
    note drawn = plot_dict_loop_drawn [OF this]
    from drawn have all: "list_all2 (drawn_for self ref es) (take (length calls) (map fst es)) calls"
      by (rule conjunct1)
    from drawn have "length calls = length (map fst es)" by blast
    then have "take (length calls) (map fst es) = map fst es" by (simp only: take_all order_refl)
    with all have "list_all2 (drawn_for self ref es) (map fst es) calls" by (simp only:)
    then have "map title calls = map (\<lambda>k. name self @ ''_'' @ str_key k) (map fst es)"
      by (induction rule: list_all2_induct) (simp_all add: drawn_for_def)
    then show ?thesis by (simp add: case_prod_beta comp_def)
  qed
  have every: "list_all2 (drawn_for self ref es) (take (length calls) (map fst es)) calls
               \<and> (res = None \<longrightarrow> length calls = length es)"
    if "plot self x (Some []) ref plot3d = (calls, res)" for calls res
  proof -
    from that assms have "plot_dict_loop self x ref plot3d es (map fst es) = (calls, res)"
      by (simp add: plot_def plot_dict_def)
    from plot_dict_loop_drawn [OF this] show ?thesis by simp
  qed
  have listed: "list_all2 (drawn_for self ref es) (take (length calls) ks) calls
                \<and> (res = None \<longrightarrow> length calls = length ks)"
    if "ks \<noteq> []" "plot self x (Some ks) ref plot3d = (calls, res)" for ks calls res
  proof -
    from that assms have "plot_dict_loop self x ref plot3d es ks = (calls, res)"
      by (simp add: plot_def plot_dict_def)
    from plot_dict_loop_drawn [OF this] show ?thesis .
  qed
  have first: "plot self x None ref plot3d = ([], Some TypeError)"
    "plot self x (Some []) ref plot3d = plot self x (Some (map fst es)) ref plot3d"
    using assms by (simp_all add: plot_def plot_dict_def)
  from first titles every listed show ?thesis by blast
qed

lemma example_two_keys_eq:
  "example_two_keys = \<lparr>name = ''gyro'', description = ''rate'', units = [''deg/s''], output_units = [''deg/s''],
      plottable = True, logx = False, logy = False, grid = ''on'', legend = None,
      data = PyDict [(KInt 0, Arr1 [1]), (KInt 1, Arr1 [2])]\<rparr>"
  by (simp add: example_two_keys_def example_keyed_eq add_data_def add_data_units_def store_data_def)

lemma str_int_1: "str_int 1 = ''1''"
  by (simp add: str_int_def str_nat.simps digit_char_def)

lemma plot_two_keys_all:
  "plot example_two_keys time_axis (Some []) None 0
     = ([\<lparr>kind = Lines2D, title = ''gyro_0'', x_series = Some (Arr1 [0]), y_series = Arr1 [1]\<rparr>,
         \<lparr>kind = Lines2D, title = ''gyro_1'', x_series = Some (Arr1 [0]), y_series = Arr1 [2]\<rparr>], None)"
  by (simp add: example_two_keys_eq time_axis_eq plot_def plot_dict_def plot_dict_step_def x_data_at_def
      convert_unit_def scale_deg_s_same copy_value_def convert_unit_ndarray_scalar_def
      dispatch_plot_def plot_in_one_figure_def ndim_def str_int_0 str_int_1)

lemma plot_two_keys_second:
  "plot example_two_keys time_axis (Some [KInt 1]) None 0
     = ([\<lparr>kind = Lines2D, title = ''gyro_1'', x_series = Some (Arr1 [0]), y_series = Arr1 [2]\<rparr>], None)"
  by (simp add: example_two_keys_eq time_axis_eq plot_def plot_dict_def plot_dict_step_def x_data_at_def
      convert_unit_def scale_deg_s_same copy_value_def convert_unit_ndarray_scalar_def
      dispatch_plot_def plot_in_one_figure_def ndim_def str_int_1)

text \<open>On the dataset with the keys 0 and 1: no key list raises, the empty list draws both
  entries, the list \<open>[1]\<close> draws the entry under 1 alone.\<close>

theorem plot_without_keys_witness:
  "plottable example_two_keys
   \<and> data example_two_keys = PyDict [(KInt 0, Arr1 [1]), (KInt 1, Arr1 [2])]
   \<and> plot example_two_keys time_axis None None 0 = ([], Some TypeError)
   \<and> plot example_two_keys time_axis (Some []) None 0
       = ([\<lparr>kind = Lines2D, title = ''gyro_0'', x_series = Some (Arr1 [0]), y_series = Arr1 [1]\<rparr>,
           \<lparr>kind = Lines2D, title = ''gyro_1'', x_series = Some (Arr1 [0]), y_series = Arr1 [2]\<rparr>], None)
   \<and> plot example_two_keys time_axis (Some [KInt 1]) None 0
       = ([\<lparr>kind = Lines2D, title = ''gyro_1'', x_series = Some (Arr1 [0]), y_series = Arr1 [2]\<rparr>], None)
   \<and> drawn_for example_two_keys None [(KInt 0, Arr1 [1]), (KInt 1, Arr1 [2])] (KInt 1)
        \<lparr>kind = Lines2D, title = ''gyro_1'', x_series = Some (Arr1 [0]), y_series = Arr1 [2]\<rparr>"
proof -
  have p: "plottable example_two_keys" by (simp add: example_two_keys_eq)
  have d: "data example_two_keys = PyDict [(KInt 0, Arr1 [1]), (KInt 1, Arr1 [2])]"
    by (simp add: example_two_keys_eq)
  note t = plot_without_keys [OF p d, of time_axis None 0]
  from t have a: "plot example_two_keys time_axis None None 0 = ([], Some TypeError)" by simp
  have ne: "[KInt 1] \<noteq> []" by simp
  from t ne plot_two_keys_second
  have "list_all2 (drawn_for example_two_keys None [(KInt 0, Arr1 [1]), (KInt 1, Arr1 [2])])
          (take (length [\<lparr>kind = Lines2D, title = ''gyro_1'', x_series = Some (Arr1 [0]), y_series = Arr1 [2]\<rparr>])
             [KInt 1])
          [\<lparr>kind = Lines2D, title = ''gyro_1'', x_series = Some (Arr1 [0]), y_series = Arr1 [2]\<rparr>]"
    by blast
  then have b: "drawn_for example_two_keys None [(KInt 0, Arr1 [1]), (KInt 1, Arr1 [2])] (KInt 1)
        \<lparr>kind = Lines2D, title = ''gyro_1'', x_series = Some (Arr1 [0]), y_series = Arr1 [2]\<rparr>"
    by simp
  from p d a b plot_two_keys_all plot_two_keys_second show ?thesis by simp
qed

section \<open>What the conversion does to the caller's objects\<close>

text \<open>For a number, an array or a list, \<open>convert_unit\<close> works on a copy: every object of
  the caller is left as it was, and the result is what the function on values gives.\<close>

lemma convert_unit_store_bare:
  assumes "bare_value h x = Some pv" and "convert_unit_store h x s d = (h', r)"
  shows "take (length h) h' = h
       \<and> (case r of
            Inl e \<Rightarrow> convert_unit pv s d = Inl e
          | Inr v \<Rightarrow> (\<exists>pv'. bare_value h' v = Some pv' \<and> convert_unit pv s d = Inr pv'))"
proof (cases "unit_conversion_scale s d")
  case (Inl e)
  with assms show ?thesis by (auto simp: convert_unit_store_def convert_unit_def)
next
  case (Inr scale)
  show ?thesis
  proof (cases x)
    case (HRef a)
    with assms(1) obtain obj where obj: "fetch h a = Some obj" "object_value obj = Some pv"
      by (auto simp: bare_value_def split: option.splits)
    then have a: "a < length h" "h ! a = obj" by (auto simp: fetch_def split: if_splits)
    from obj(2) assms(2) Inr HRef obj(1) a show ?thesis
      by (cases obj)
         (auto simp: object_value_def convert_unit_store_def convert_unit_def copy_object_def alloc_def
            fetch_def copy_value_def convert_unit_ndarray_scalar_store_def convert_unit_ndarray_scalar_def
            bare_value_def Let_def nth_append split: if_splits)
  qed (use assms Inr in \<open>auto simp: bare_value_def convert_unit_store_def convert_unit_def copy_object_def
        copy_value_def convert_unit_ndarray_scalar_store_def convert_unit_ndarray_scalar_def Let_def
        split: if_splits\<close>)
qed

lemma refs_of_append: "refs_of (xs @ ys) = refs_of xs @ refs_of ys"
  by (induction xs rule: refs_of.induct) auto

lemma slot_values_append:
  "slot_values h (xs @ ys) =
     (case slot_values h xs of
        None \<Rightarrow> None
      | Some ps \<Rightarrow> (case slot_values h ys of None \<Rightarrow> None | Some qs \<Rightarrow> Some (ps @ qs)))"
  by (induction xs) (auto split: option.splits)

lemma bare_value_frame:
  "(\<And>b. v = HRef b \<Longrightarrow> fetch h' b = fetch h b) \<Longrightarrow> bare_value h' v = bare_value h v"
  by (cases v) (auto simp: bare_value_def)

lemma refs_of_Cons: "set (refs_of ((k, v) # es)) = (case v of HRef a \<Rightarrow> {a} | _ \<Rightarrow> {}) \<union> set (refs_of es)"
  by (cases v) auto

lemma slot_values_frame:
  "(\<And>b. b \<in> set (refs_of es) \<Longrightarrow> fetch h' b = fetch h b) \<Longrightarrow> slot_values h' es = slot_values h es"
proof (induction es)
  case Nil
  then show ?case by simp
next
  case (Cons kv es)
  obtain k v where kv: "kv = (k, v)" by (cases kv)
  have "bare_value h' v = bare_value h v"
    by (rule bare_value_frame) (use Cons.prems kv in \<open>simp add: refs_of_Cons\<close>)
  moreover have "slot_values h' es = slot_values h es"
    by (rule Cons.IH) (use Cons.prems kv in \<open>simp add: refs_of_Cons\<close>)
  ultimately show ?case by (auto simp: kv split: option.splits)
qed

lemma slot_get_middle:
  "k \<notin> fst ` set pre \<Longrightarrow> slot_get (pre @ (k, v) # rest) k = Some v"
  by (induction pre) auto

lemma slot_set_middle:
  "k \<notin> fst ` set pre \<Longrightarrow> slot_set (pre @ (k, v) # rest) k v' = pre @ (k, v') # rest"
  by (induction pre) auto

lemma bare_value_ref:
  "bare_value h (HRef b) = Some p \<Longrightarrow> b < length h \<and> (\<forall>es. h ! b \<noteq> ODict es)"
  by (auto simp: bare_value_def fetch_def object_value_def split: if_splits option.splits hobject.splits)

lemma slot_values_refs:
  "slot_values h es = Some ps \<Longrightarrow> b \<in> set (refs_of es) \<Longrightarrow> b < length h \<and> (\<forall>ds. h ! b \<noteq> ODict ds)"
proof (induction es arbitrary: ps rule: refs_of.induct)
  case 1
  then show ?case by simp
next
  case (2 k a es)
  then show ?case
    by (auto split: option.splits dest: bare_value_ref)
qed (auto split: option.splits)

text \<open>What one call of \<open>convert_unit_ndarray_scalar\<close> does to the store: only the object it is
  given can change, and the result is what the function on values gives.\<close>

lemma convert_store_step:
  assumes "bare_value h v = Some p"
    and "convert_unit_ndarray_scalar_store h v scale = (h1, res)"
  shows "length h \<le> length h1
       \<and> (\<forall>b < length h. v \<noteq> HRef b \<longrightarrow> h1 ! b = h ! b)
       \<and> (case res of
            Inl e \<Rightarrow> convert_unit_ndarray_scalar p scale = Inl e
          | Inr v' \<Rightarrow>
              (\<exists>p'. bare_value h1 v' = Some p' \<and> convert_unit_ndarray_scalar p scale = Inr p')
              \<and> (v' = v \<or> v' = HRef (length h) \<or> (\<forall>b. v' \<noteq> HRef b)))"
proof (cases v)
  case (HRef a)
  with assms(1) obtain obj where obj: "fetch h a = Some obj" "object_value obj = Some p"
    by (auto simp: bare_value_def split: option.splits)
  then have a: "a < length h" "h ! a = obj" by (auto simp: fetch_def split: if_splits)
  from obj(2) assms(2) HRef obj(1) a show ?thesis
    by (cases obj)
       (auto simp: object_value_def alloc_def fetch_def convert_unit_ndarray_scalar_store_def
          convert_unit_ndarray_scalar_def bare_value_def Let_def nth_append split: if_splits)
qed (use assms in \<open>auto simp: bare_value_def convert_unit_ndarray_scalar_store_def
        convert_unit_ndarray_scalar_def Let_def split: if_splits\<close>)


text \<open>The loop over a dictionary, from any point on: \<open>pre\<close> are the slots already converted,
  \<open>todo\<close> the ones still to convert.\<close>

lemma convert_slots_refines:
  assumes "fetch h a = Some (ODict (pre @ todo))"
    and "distinct (map fst (pre @ todo))"
    and "slot_values h pre = Some pv"
    and "slot_values h todo = Some tv"
    and "distinct (refs_of todo)"
    and "set (refs_of pre) \<inter> set (refs_of todo) = {}"
    and "convert_slots h a (map fst todo) scale = (h', r)"
  shows "case r of
           Some e \<Rightarrow> convert_entries tv scale = Inl e
         | None \<Rightarrow>
             (\<exists>todo' tv'. fetch h' a = Some (ODict (pre @ todo'))
                \<and> slot_values h' (pre @ todo') = Some (pv @ tv')
                \<and> convert_entries tv scale = Inr tv')"
  using assms
proof (induction todo arbitrary: h pre pv tv)
  case Nil
  then show ?case by (auto simp: slot_values_append)
next
  case (Cons kv rest)
  obtain k v where kv: "kv = (k, v)" by (cases kv)
  from Cons.prems(4) kv obtain p tv0 where
    p: "bare_value h v = Some p" and tv0: "slot_values h rest = Some tv0" and tv: "tv = (k, p) # tv0"
    by (auto split: option.splits)
  from Cons.prems(2) kv have k_pre: "k \<notin> fst ` set pre" by auto
  from Cons.prems(1) have a_len: "a < length h" and a_obj: "h ! a = ODict (pre @ kv # rest)"
    by (auto simp: fetch_def split: if_splits)
  have v_not_a: "v \<noteq> HRef a"
    using p a_obj by (auto dest: bare_value_ref)
  obtain h1 res where step: "convert_unit_ndarray_scalar_store h v scale = (h1, res)"
    by (cases "convert_unit_ndarray_scalar_store h v scale")
  note eff = convert_store_step [OF p step]
  show ?case
  proof (cases res)
    case (Inl e)
    with Cons.prems(1,7) kv k_pre step eff tv show ?thesis
      by (auto simp: slot_get_middle)
  next
    case (Inr v')
    from eff Inr obtain p' where
      p': "bare_value h1 v' = Some p'" and conv: "convert_unit_ndarray_scalar p scale = Inr p'"
      and v'_kind: "v' = v \<or> v' = HRef (length h) \<or> (\<forall>b. v' \<noteq> HRef b)"
      by auto
    from eff have len: "length h \<le> length h1"
      and same: "\<And>b. b < length h \<Longrightarrow> v \<noteq> HRef b \<Longrightarrow> h1 ! b = h ! b" by auto
    from same [OF a_len v_not_a] a_obj a_len len
    have a1: "fetch h1 a = Some (ODict (pre @ (k, v) # rest))"
      by (simp add: fetch_def kv)
    let ?h2 = "h1[a := ODict (pre @ (k, v') # rest)]"
    from Cons.prems(7) kv Cons.prems(1) k_pre step Inr a1
    have rec: "convert_slots ?h2 a (map fst rest) scale = (h', r)"
      by (simp add: slot_get_middle slot_set_middle)
    have a2: "fetch ?h2 a = Some (ODict ((pre @ [(k, v')]) @ rest))"
      using a_len len by (simp add: fetch_def)
    have dist: "distinct (map fst ((pre @ [(k, v')]) @ rest))"
      using Cons.prems(2) kv by simp
    have fetch_old: "fetch ?h2 b = fetch h b" if "b < length h" "v \<noteq> HRef b" "b \<noteq> a" for b
      using that same [of b] len by (simp add: fetch_def)
    have rest_refs: "b < length h \<and> b \<noteq> a \<and> v \<noteq> HRef b" if "b \<in> set (refs_of rest)" for b
    proof -
      from slot_values_refs [OF tv0 that] a_obj have "b < length h" "b \<noteq> a" by auto
      moreover from Cons.prems(5) kv that have "v \<noteq> HRef b" by (auto simp: refs_of_Cons split: hvalue.splits)
      ultimately show ?thesis by simp
    qed
    have tv0': "slot_values ?h2 rest = Some tv0"
      using slot_values_frame [of rest ?h2 h] fetch_old rest_refs tv0 by simp
    have pre_refs: "b < length h \<and> b \<noteq> a \<and> v \<noteq> HRef b" if "b \<in> set (refs_of pre)" for b
    proof -
      from slot_values_refs [OF Cons.prems(3) that] a_obj have "b < length h" "b \<noteq> a" by auto
      moreover from Cons.prems(6) kv that have "v \<noteq> HRef b" by (auto simp: refs_of_Cons split: hvalue.splits)
      ultimately show ?thesis by simp
    qed
    have pv': "slot_values ?h2 pre = Some pv"
      using slot_values_frame [of pre ?h2 h] fetch_old pre_refs Cons.prems(3) by simp
    have v'_not_a: "v' \<noteq> HRef a"
      using v'_kind v_not_a a_len by auto
    have p'2: "bare_value ?h2 v' = Some p'"
    proof -
      have "bare_value ?h2 v' = bare_value h1 v'"
        by (rule bare_value_frame) (use v'_not_a in \<open>auto simp: fetch_def\<close>)
      with p' show ?thesis by simp
    qed
    have pre': "slot_values ?h2 (pre @ [(k, v')]) = Some (pv @ [(k, p')])"
      using pv' p'2 by (simp add: slot_values_append)
    have dist_rest: "distinct (refs_of rest)"
      using Cons.prems(5) kv by (cases v) auto
    have disj: "set (refs_of (pre @ [(k, v')])) \<inter> set (refs_of rest) = {}"
    proof -
      have "set (refs_of pre) \<inter> set (refs_of rest) = {}"
        using Cons.prems(6) kv by (auto simp: refs_of_Cons)
      moreover have "b \<notin> set (refs_of rest)" if "v' = HRef b" for b
      proof
        assume b: "b \<in> set (refs_of rest)"
        from rest_refs [OF b] that v'_kind show False by auto
      qed
      ultimately show ?thesis
        by (auto simp: refs_of_append refs_of_Cons split: hvalue.splits)
    qed
    from Cons.IH [OF a2 dist pre' tv0' dist_rest disj rec]
    show ?thesis
      using tv conv by (auto split: option.splits)
  qed
qed


text \<open>For a dictionary whose slots hold distinct objects, \<open>convert_unit\<close> returns a new
  dictionary whose value is what the function on values gives.\<close>

lemma convert_unit_store_dict:
  assumes "fetch h a = Some (ODict es)"
    and "slot_values h es = Some vs"
    and "distinct (map fst es)"
    and "distinct (refs_of es)"
    and "convert_unit_store h (HRef a) s d = (h', r)"
  shows "case r of
           Inl e \<Rightarrow> convert_unit (PyDict vs) s d = Inl e
         | Inr v \<Rightarrow>
             (\<exists>es' vs'. v = HRef (length h) \<and> fetch h' (length h) = Some (ODict es')
                \<and> slot_values h' es' = Some vs'
                \<and> convert_unit (PyDict vs) s d = Inr (PyDict vs'))"
proof (cases "unit_conversion_scale s d")
  case (Inl e)
  with assms(5) show ?thesis by (auto simp: convert_unit_store_def convert_unit_def)
next
  case (Inr scale)
  let ?h1 = "h @ [ODict es]"
  let ?a = "length h"
  have copy: "copy_object h (HRef a) = (?h1, Inr (HRef ?a))"
    using assms(1) by (simp add: copy_object_def alloc_def)
  have a1: "fetch ?h1 ?a = Some (ODict ([] @ es))" by (simp add: fetch_def)
  have vs1: "slot_values ?h1 es = Some vs"
  proof -
    have "fetch ?h1 b = fetch h b" if "b \<in> set (refs_of es)" for b
      using slot_values_refs [OF assms(2) that] by (simp add: fetch_def nth_append)
    from slot_values_frame [of es ?h1 h, OF this] assms(2) show ?thesis by simp
  qed
  obtain h2 res where slots: "convert_slots ?h1 ?a (map fst es) scale = (h2, res)"
    by (cases "convert_slots ?h1 ?a (map fst es) scale")
  from assms(5) Inr copy slots have out: "h' = h2" "r = (case res of Some e \<Rightarrow> Inl e | None \<Rightarrow> Inr (HRef ?a))"
    by (auto simp: convert_unit_store_def fetch_def split: option.splits)
  have "distinct (map fst ([] @ es))" "slot_values ?h1 [] = Some []"
    "set (refs_of []) \<inter> set (refs_of es) = {}"
    using assms(3) by simp_all
  from convert_slots_refines [OF a1 this(1) this(2) vs1 assms(4) this(3) slots]
  show ?thesis
    using out Inr by (auto simp: convert_unit_def copy_value_def split: option.splits)
qed

text \<open>
  C1 at a dictionary. The caller holds the array \<open>[[1.0]]\<close> and a dictionary with that
  array under the key 0. \<open>convert_unit\<close> from deg to rad copies the dictionary but not the
  array in it, and the loop over the columns writes into that array: after the call the
  caller's array holds \<open>pi / 180\<close>. \<open>convert_unit_ndarray_scalar\<close>, called on the array
  itself, changes it in the same way.
\<close>

theorem convert_unit_changes_callers_array:
  "fetch caller_store 0 = Some (OArr2 1 [[1]])
   \<and> convert_unit_store caller_store (HRef 1) [''deg''] [''rad'']
       = ([OArr2 1 [[pi / 180]], ODict [(KInt 0, HRef 0)], ODict [(KInt 0, HRef 0)]], Inr (HRef 2))
   \<and> fetch (fst (convert_unit_store caller_store (HRef 1) [''deg''] [''rad''])) 0 = Some (OArr2 1 [[pi / 180]])
   \<and> convert_unit_ndarray_scalar_store caller_store (HRef 0) [2]
       = ([OArr2 1 [[2]], ODict [(KInt 0, HRef 0)]], Inr (HRef 0))"
  by (simp add: caller_store_def convert_unit_store_def scale_deg_to_rad copy_object_def fetch_def alloc_def
      convert_unit_ndarray_scalar_store_def upt_conv_Cons scale_column_def D2R_def)

end
